theory Spec2Isabelle
  imports Complex_Main "HOL-Library.Word" "HOL-Library.Multiset" "HOL-Library.Stream" "HOL-Library.Sublist"
begin

unbundle bit_operations_syntax

section \<open>Machine types, constants and abnormal exits\<close>

text \<open>
  \<open>size_t\<close> of the source is a 64-bit unsigned integer: addition, subtraction and
  multiplication wrap around. \<open>uint8_t\<close> is an 8-bit word. A pointer is an optional
  address: \<open>None\<close> is \<open>nullptr\<close>.
\<close>

type_synonym size_t = "64 word"
type_synonym uint8_t = "8 word"
type_synonym addr = nat
type_synonym 'a ptr = "'a option"

text \<open>
  The ways a call can leave a function without returning: an \<open>assert\<close> that fails
  (assertions are compiled in),
  a C++ exception (\<open>throw std::runtime_error\<close>, \<open>std::out_of_range\<close> of
  \<open>vector::at\<close>), and the dereference of a pointer that points to no live object.
\<close>

datatype fault = AssertFailed | RuntimeError | OutOfRange | InvalidPointer

text \<open>
  The compile-time constants that the functions under verification read and that are
  declared in headers outside the verified files. They are parameters of the model.
  \<open>kMaxDataPerPkt\<close> is \<open>TTr::kMaxDataPerPkt\<close>, \<open>kMaxClassSize\<close> is
  \<open>HugeAlloc::kMaxClassSize\<close>, \<open>kSessionReqWindow\<close> is
  \<open>Session::kSessionReqWindow\<close>.
\<close>

record Config =
  kMaxDataPerPkt :: size_t
  kMaxClassSize :: size_t
  kSessionReqWindow :: nat
  kMaxSessionsPerThread :: nat
  kMaxPhyPorts :: nat
  kMaxHostnameLen :: nat

text \<open>
  Modelled from the spec: \<open>pkthdr_t\<close> (pkthdr.h) is not among the verified files. The
  spec gives the packet header 16 bytes, so \<open>sizeof(pkthdr_t)\<close> is 16.
\<close>

definition sizeof_pkthdr_t :: size_t where
  "sizeof_pkthdr_t = 16"

text \<open>
  Modelled from the spec: \<open>kMsgSizeBits\<close>, \<open>kPktNumBits\<close> and \<open>kSecretBits\<close> are declared
  outside the verified files. The spec's header layout has 24 bits for the message size
  and 13 bits for the packet number, and the shared secret has 48 bits.
\<close>

definition kMsgSizeBits :: nat where
  "kMsgSizeBits = 24"

definition kPktNumBits :: nat where
  "kPktNumBits = 13"

definition kSecretBits :: nat where
  "kSecretBits = 48"

text \<open>\<open>Rpc::kMaxMsgSize\<close>, computed in \<open>size_t\<close> as the source does.\<close>

definition kMaxMsgSize :: "Config \<Rightarrow> size_t" where
  "kMaxMsgSize cfg =
     kMaxClassSize cfg - ((kMaxClassSize cfg div kMaxDataPerPkt cfg) * sizeof_pkthdr_t)"

text \<open>
  The two \<open>static_assert\<close>s of \<open>class Rpc\<close>, and the fact that the constant expression
  for \<open>kMaxMsgSize\<close> does not divide by zero: a configuration that violates one of
  them does not compile.
\<close>

definition static_asserts :: "Config \<Rightarrow> bool" where
  "static_asserts cfg \<longleftrightarrow>
     kMaxDataPerPkt cfg \<noteq> 0 \<and>
     push_bit kMsgSizeBits (1 :: size_t) \<ge> kMaxMsgSize cfg \<and>
     push_bit kPktNumBits (1 :: size_t) * kMaxDataPerPkt cfg \<ge> kMaxMsgSize cfg"

section \<open>The hugepage allocator and message buffers\<close>

text \<open>
  Modelled from the spec: \<open>Buffer\<close> (util/buffer.h) is not among the verified files. It
  is the contiguous buffer that the allocator hands out: the pointer \<open>buf\<close> to its first
  byte (field \<open>b_buf\<close>, null for an invalid buffer) and its size.
\<close>

record Buffer =
  b_buf :: "addr ptr"
  class_size :: nat

text \<open>
  Modelled from the spec: \<open>HugeAlloc\<close> (util/huge_alloc.h) is not among the verified
  files. The spec describes it as an allocator of contiguous buffers whose \<open>alloc\<close>
  returns an invalid (null) buffer when it is out of memory; the documentation of
  \<open>alloc_msg_buffer\<close> adds that it throws \<open>runtime_error\<close> when the size is too large
  for the allocator (and when the reservation of hugepages fails catastrophically, which
  is not modelled). The model keeps the bytes the allocator can still hand out, the
  next unused address and the buffers that are handed out and not yet freed.
\<close>

record HugeAlloc =
  avail_bytes :: nat
  next_free :: addr
  user_allocs :: "Buffer list"

definition null_Buffer :: Buffer where
  "null_Buffer = \<lparr>b_buf = None, class_size = 0\<rparr>"

definition HugeAlloc_alloc :: "Config \<Rightarrow> HugeAlloc \<Rightarrow> size_t \<Rightarrow> fault + (Buffer \<times> HugeAlloc)" where
  "HugeAlloc_alloc cfg h sz =
     (if sz > kMaxClassSize cfg then Inl RuntimeError
      else if unat sz > avail_bytes h then Inr (null_Buffer, h)
      else
        let b = \<lparr>b_buf = Some (next_free h), class_size = unat sz\<rparr>
        in Inr (b, h\<lparr>avail_bytes := avail_bytes h - unat sz,
                     next_free := next_free h + unat sz,
                     user_allocs := user_allocs h @ [b]\<rparr>))"

definition HugeAlloc_free_buf :: "HugeAlloc \<Rightarrow> Buffer \<Rightarrow> HugeAlloc" where
  "HugeAlloc_free_buf h b =
     h\<lparr>avail_bytes := avail_bytes h + class_size b,
       user_allocs := remove1 b (user_allocs h)\<rparr>"

text \<open>
  Modelled from the spec: \<open>MsgBuffer\<close> (msg_buffer.h) is not among the verified files.
  Its attributes are those of the spec's data model: the backing \<open>Buffer\<close> (non-null
  exactly for a dynamic buffer, as the comments in \<open>bury_sslot_rx_msgbuf\<close> say), the
  pointer \<open>buf\<close> to the payload, the maximum and current payload size, the maximum and
  current packet count, and the magic sentinel of the zeroth packet header.
\<close>

record MsgBuffer =
  buffer :: Buffer
  buf :: "addr ptr"
  max_data_size :: size_t
  data_size :: size_t
  max_num_pkts :: size_t
  num_pkts :: size_t
  magic_set :: bool

text \<open>
  Modelled from the spec: the default constructor \<open>MsgBuffer msg_buffer;\<close> that
  \<open>alloc_msg_buffer\<close> uses for the invalid handle. The spec says of this handle only that
  it is invalid, which is the null \<open>buf\<close> that \<open>alloc_msg_buffer\<close> stores itself; the
  other fields are taken to be zero.
\<close>

definition MsgBuffer_default :: MsgBuffer where
  "MsgBuffer_default =
     \<lparr>buffer = null_Buffer, buf = None, max_data_size = 0, data_size = 0,
      max_num_pkts = 0, num_pkts = 0, magic_set = False\<rparr>"

text \<open>
  Modelled from the spec: the constructor \<open>MsgBuffer(buffer, max_data_size,
  max_num_pkts)\<close>. It yields a dynamic buffer with \<open>size = max_size\<close>,
  \<open>packet_count = p\<close> and the magic set; the payload starts after the zeroth header.
\<close>

definition MsgBuffer_ctor :: "Buffer \<Rightarrow> size_t \<Rightarrow> size_t \<Rightarrow> MsgBuffer" where
  "MsgBuffer_ctor b max_data max_pkts =
     \<lparr>buffer = b, buf = map_option (\<lambda>a. a + unat sizeof_pkthdr_t) (b_buf b),
      max_data_size = max_data, data_size = max_data,
      max_num_pkts = max_pkts, num_pkts = max_pkts, magic_set = True\<rparr>"

text \<open>
  Modelled from the spec: \<open>MsgBuffer::is_dynamic\<close> and \<open>MsgBuffer::check_magic\<close>. A message
  buffer used dynamic allocation if the \<open>buf\<close> of its backing buffer is non-null (the
  comments of \<open>bury_sslot_tx_msgbuf\<close> and \<open>bury_sslot_rx_msgbuf\<close>); the magic is checked
  against the sentinel.
\<close>

definition is_dynamic :: "MsgBuffer \<Rightarrow> bool" where
  "is_dynamic m \<longleftrightarrow> b_buf (buffer m) \<noteq> None"

definition check_magic :: "MsgBuffer \<Rightarrow> bool" where
  "check_magic m \<longleftrightarrow> magic_set m"

text \<open>
  Modelled from the spec: \<open>MsgBuffer::resize\<close> lowers the size and stores the recomputed
  packet count without touching memory.
\<close>

definition MsgBuffer_resize :: "MsgBuffer \<Rightarrow> size_t \<Rightarrow> size_t \<Rightarrow> MsgBuffer" where
  "MsgBuffer_resize m new_data_size new_num_pkts =
     m\<lparr>data_size := new_data_size, num_pkts := new_num_pkts\<rparr>"

text \<open>
  The packet count that \<open>alloc_msg_buffer\<close> and \<open>resize_msg_buffer\<close> compute, with the
  source's branch that avoids the division for small sizes. The division is by the
  constant \<open>kMaxDataPerPkt\<close>, which is not zero in a configuration that compiles.
\<close>

definition calc_num_pkts :: "Config \<Rightarrow> size_t \<Rightarrow> size_t" where
  "calc_num_pkts cfg sz =
     (if sz \<le> kMaxDataPerPkt cfg then 1
      else (sz + (kMaxDataPerPkt cfg - 1)) div kMaxDataPerPkt cfg)"

text \<open>
  \<open>Rpc::alloc_msg_buffer\<close>, on the allocator of the Rpc. The conditional locking of the
  allocator has no effect in a sequential run and is left out.
\<close>

definition alloc_msg_buffer :: "Config \<Rightarrow> HugeAlloc \<Rightarrow> size_t \<Rightarrow> fault + (MsgBuffer \<times> HugeAlloc)" where
  "alloc_msg_buffer cfg h max_data =
     (let max_pkts = calc_num_pkts cfg max_data in
      case HugeAlloc_alloc cfg h (max_data + (max_pkts * sizeof_pkthdr_t)) of
        Inl e \<Rightarrow> Inl e
      | Inr (b, h') \<Rightarrow>
          if b_buf b = None then Inr (MsgBuffer_default\<lparr>buf := None\<rparr>, h')
          else Inr (MsgBuffer_ctor b max_data max_pkts, h'))"

text \<open>
  \<open>Rpc::resize_msg_buffer\<close>. The function receives a pointer to the handle; the memory
  that holds the payload is passed along to make visible that it is not written.
\<close>

type_synonym memory = "addr \<Rightarrow> uint8_t"

definition resize_msg_buffer ::
  "Config \<Rightarrow> MsgBuffer ptr \<times> memory \<Rightarrow> size_t \<Rightarrow> fault + (MsgBuffer \<times> memory)" where
  "resize_msg_buffer cfg arg new_data_size =
     (case fst arg of
        None \<Rightarrow> Inl AssertFailed
      | Some m \<Rightarrow>
          if \<not> (buf m \<noteq> None \<and> check_magic m) then Inl AssertFailed
          else if \<not> new_data_size < max_data_size m then Inl AssertFailed
          else Inr (MsgBuffer_resize m new_data_size (calc_num_pkts cfg new_data_size), snd arg))"

text \<open>The payload bytes \<open>[0, n)\<close> of a message buffer.\<close>

definition payload :: "memory \<Rightarrow> MsgBuffer \<Rightarrow> nat \<Rightarrow> uint8_t list" where
  "payload mem m n = (case buf m of None \<Rightarrow> [] | Some a \<Rightarrow> map (\<lambda>i. mem (a + i)) [0..<n])"

text \<open>\<open>Rpc::free_msg_buffer\<close>.\<close>

definition free_msg_buffer :: "HugeAlloc \<Rightarrow> MsgBuffer \<Rightarrow> fault + HugeAlloc" where
  "free_msg_buffer h m =
     (if \<not> (is_dynamic m \<and> check_magic m) then Inl AssertFailed
      else Inr (HugeAlloc_free_buf h (buffer m)))"


section \<open>Sessions\<close>

text \<open>
  Modelled from the spec: \<open>Session::Role\<close> and \<open>SessionState\<close> (session.h) are not among the
  verified files. A session is a client or a server session; its states are the four
  cases of the \<open>switch\<close> in \<open>destroy_session\<close>.
\<close>

datatype Role = kServer | kClient

datatype SessionState = kConnectInProgress | kConnected | kDisconnectInProgress | kDisconnected

text \<open>
  Modelled from the spec: the transport kind and the routing info are declared with the
  transport, outside the verified files. The kind is an enumeration, given by its code;
  the routing info is an opaque blob.
\<close>

type_synonym TransportType = nat
type_synonym RoutingInfo = "uint8_t list"

text \<open>
  Modelled from the spec: \<open>SessionEndpoint\<close>, \<open>SSlot\<close> and \<open>Session\<close> (session.h) are
  not among the verified files. The fields are those of the spec's data model under
  the names the verified functions use. \<open>app_tid\<close> is the application-assigned endpoint
  id (\<open>rpc_id\<close> in rpc_sm_helpers.cc). A C string is a \<open>string\<close>, so \<open>strcmp(a, b) == 0\<close>
  is \<open>a = b\<close> and \<open>strlen\<close> is \<open>length\<close>. Session numbers are natural numbers: the
  spec gives the fields no width, and \<open>create_session\<close> keeps the session vector below
  \<open>kMaxSessionsPerThread\<close>.
\<close>

record SessionEndpoint =
  transport_type :: TransportType
  hostname :: string
  phy_port :: uint8_t
  app_tid :: uint8_t
  session_num :: nat
  secret :: "64 word"
  routing_info :: RoutingInfo

text \<open>
  Modelled from the spec: \<open>SSlot\<close>. A slot lives inside the \<open>sslot_arr\<close> of its session. \<open>sslot_session\<close> is the field
  \<open>session\<close>, the back pointer to the owning session; \<open>tx_msgbuf\<close> is a pointer to a
  message buffer owned by the application or the engine.
\<close>

record SSlot =
  sslot_session :: addr
  index :: nat
  tx_msgbuf :: "MsgBuffer ptr"
  rx_msgbuf :: MsgBuffer
  pre_resp_msgbuf :: MsgBuffer

record Session =
  role :: Role
  state :: SessionState
  client :: SessionEndpoint
  server :: SessionEndpoint
  local_session_num :: nat
  sslot_arr :: "SSlot list"
  sslot_free_vec :: "nat list"
  in_datapath_tx_work_queue :: bool
  sm_api_req_pending :: bool

text \<open>
  Modelled from the spec: \<open>Session::is_client\<close>, and the endpoint descriptor before
  \<open>create_session\<close> fills it in, whose fields are taken to be zero and empty.
\<close>

definition is_client :: "Session \<Rightarrow> bool" where
  "is_client s \<longleftrightarrow> role s = kClient"

definition SessionEndpoint_default :: SessionEndpoint where
  "SessionEndpoint_default =
     \<lparr>transport_type = 0, hostname = [], phy_port = 0, app_tid = 0, session_num = 0,
      secret = 0, routing_info = []\<rparr>"

text \<open>
  Modelled from the spec: the constructor \<open>Session(role, state)\<close>, for the session that
  \<open>new\<close> places at address \<open>this\<close>. The slot array has \<open>kSessionReqWindow\<close> slots, each
  with its index and the back reference to the session and with no buffer attached; all
  slots are free; the session is not in the TX work queue.
\<close>

definition SSlot_ctor :: "addr \<Rightarrow> nat \<Rightarrow> SSlot" where
  "SSlot_ctor this i =
     \<lparr>sslot_session = this, index = i, tx_msgbuf = None,
      rx_msgbuf = MsgBuffer_default, pre_resp_msgbuf = MsgBuffer_default\<rparr>"

definition Session_ctor :: "Config \<Rightarrow> addr \<Rightarrow> Role \<Rightarrow> SessionState \<Rightarrow> Session" where
  "Session_ctor cfg this r st =
     \<lparr>role = r, state = st, client = SessionEndpoint_default,
      server = SessionEndpoint_default, local_session_num = 0,
      sslot_arr = map (SSlot_ctor this) [0..<kSessionReqWindow cfg],
      sslot_free_vec = rev [0..<kSessionReqWindow cfg],
      in_datapath_tx_work_queue = False, sm_api_req_pending = False\<rparr>"

section \<open>Session management packets\<close>

text \<open>
  Modelled from the spec: \<open>SessionMgmtPktType\<close> and \<open>SessionMgmtErrType\<close> are declared
  outside the verified files. The packet types are the cases of the \<open>switch\<close> in
  \<open>handle_session_mgmt_st\<close>; the error kind is an enumeration, given by its code.
\<close>

datatype SessionMgmtPktType =
  kConnectReq | kConnectResp | kDisconnectReq | kDisconnectResp | kFaultDropTxRemote

type_synonym SessionMgmtErrType = nat

text \<open>
  Modelled from the spec: \<open>SessionMgmtPkt\<close> carries the packet type, both endpoint
  descriptors (client, server) including the shared secret, and an error kind. The
  fields of a packet made by \<open>new SessionMgmtPkt()\<close> are taken to be zero and empty
  until they are assigned.
\<close>

record SessionMgmtPkt =
  pkt_type :: SessionMgmtPktType
  err_type :: SessionMgmtErrType
  pkt_client :: SessionEndpoint
  pkt_server :: SessionEndpoint

definition SessionMgmtPkt_default :: SessionMgmtPkt where
  "SessionMgmtPkt_default =
     \<lparr>pkt_type = kConnectReq, err_type = 0, pkt_client = SessionEndpoint_default,
      pkt_server = SessionEndpoint_default\<rparr>"

text \<open>
  Modelled from the spec: \<open>Nexus::SmWorkItem\<close> (nexus.h) is not among the verified files.
  Its fields are those that rpc_sm_helpers.cc passes to its constructor and reads: the id of the Rpc, the packet
  (a pointer to a copy that the work item owns) and the peer to reply to.
\<close>

record SmWorkItem =
  wi_rpc_id :: uint8_t
  sm_pkt :: "SessionMgmtPkt ptr"
  epeer :: "addr ptr"

text \<open>
  Modelled from the spec: \<open>SessionMgmtPkt::is_req\<close> and
  \<open>session_mgmt_pkt_type_req_to_resp\<close> are declared outside the verified files. The
  requests are \<open>ConnectReq\<close> and \<open>DisconnectReq\<close>, and the fault packet, whose sender
  \<open>handle_session_mgmt_st\<close> takes to be its client; a request is turned into the
  corresponding response type. No response type corresponds to the other types.
\<close>

definition is_req :: "SessionMgmtPkt \<Rightarrow> bool" where
  "is_req p \<longleftrightarrow> pkt_type p \<in> {kConnectReq, kDisconnectReq, kFaultDropTxRemote}"

fun session_mgmt_pkt_type_req_to_resp :: "SessionMgmtPktType \<Rightarrow> fault + SessionMgmtPktType" where
  "session_mgmt_pkt_type_req_to_resp kConnectReq = Inr kConnectResp"
| "session_mgmt_pkt_type_req_to_resp kDisconnectReq = Inr kDisconnectResp"
| "session_mgmt_pkt_type_req_to_resp _ = Inl RuntimeError"

section \<open>The Rpc object\<close>

text \<open>
  Modelled from the spec: the transport is an external collaborator; the verified
  functions read its kind and call \<open>fill_local_routing_info\<close>, which writes the opaque
  routing info the peer needs to reach this endpoint.
\<close>

record Transport =
  tr_transport_type :: TransportType
  local_routing_info :: RoutingInfo

definition fill_local_routing_info :: "Transport \<Rightarrow> RoutingInfo" where
  "fill_local_routing_info tr = local_routing_info tr"

text \<open>The four callees of the event loop that are defined outside the verified files.\<close>

datatype callee =
  HandleSessionManagement | MgmtRetry | ProcessCompletions | ProcessDatapathTxWorkQueue

text \<open>
  The members of \<open>class Rpc\<close> that the verified functions touch. \<open>Session\<close> objects
  live on the C++ heap: \<open>sessions\<close> maps the address of every live session to its
  value, and \<open>session_addrs\<close> holds the addresses that the calls of \<open>new Session\<close> to
  come will return. The heap decides these addresses, and it may hand out the address
  of a deleted session again: a pointer to a deleted session that is still stored
  somewhere then points to the later session. \<open>nexus_hostname\<close> is \<open>nexus->hostname\<close>,
  \<open>sm_pkt_list\<close> the session management mailbox of the Nexus hook that the event
  loop polls, \<open>sm_tx_list\<close> the list of management packets handed to the Nexus for
  sending, \<open>slow_rand\<close> the outputs that the random generator will produce,
  \<open>ev_loop_calls\<close> the counter of \<open>dpath_stats\<close>.
\<close>

record Rpc =
  nexus_hostname :: string
  rpc_app_tid :: uint8_t
  rpc_phy_port :: uint8_t
  creator_os_tid :: int
  transport :: Transport
  huge_alloc :: HugeAlloc
  sessions :: "addr \<rightharpoonup> Session"
  session_addrs :: "addr stream"
  session_vec :: "addr ptr list"
  mgmt_retry_queue :: "addr list"
  datapath_tx_work_queue :: "addr list"
  sm_pkt_list :: "SessionMgmtPkt list"
  sm_tx_list :: "SmWorkItem list"
  slow_rand :: "64 word stream"
  ev_loop_calls :: size_t

text \<open>\<open>in_creator\<close>; \<open>tid\<close> is what \<open>gettid()\<close> returns in the calling thread.\<close>

definition in_creator :: "int \<Rightarrow> Rpc \<Rightarrow> bool" where
  "in_creator tid rpc \<longleftrightarrow> tid = creator_os_tid rpc"

text \<open>
  The Rpc after construction, as far as the member initialisers of rpc.h determine it:
  the vectors are empty and no session exists. The random numbers and the heap
  addresses to come are arguments.
\<close>

definition Rpc_init ::
  "string \<Rightarrow> uint8_t \<Rightarrow> uint8_t \<Rightarrow> int \<Rightarrow> Transport \<Rightarrow> HugeAlloc \<Rightarrow> 64 word stream \<Rightarrow>
     addr stream \<Rightarrow> Rpc" where
  "Rpc_init host tid_app port creator tr h rnd addrs =
     \<lparr>nexus_hostname = host, rpc_app_tid = tid_app, rpc_phy_port = port,
      creator_os_tid = creator, transport = tr, huge_alloc = h,
      sessions = Map.empty, session_addrs = addrs, session_vec = [],
      mgmt_retry_queue = [], datapath_tx_work_queue = [], sm_pkt_list = [],
      sm_tx_list = [], slow_rand = rnd, ev_loop_calls = 0\<rparr>"

section \<open>Session management helpers\<close>

text \<open>\<open>Rpc::enqueue_sm_req\<close> (rpc_sm_helpers.cc).\<close>

definition enqueue_sm_req :: "addr ptr \<Rightarrow> SessionMgmtPktType \<Rightarrow> Rpc \<Rightarrow> fault + Rpc" where
  "enqueue_sm_req session_p ty rpc =
     (case session_p of
        None \<Rightarrow> Inl AssertFailed
      | Some a \<Rightarrow>
          (case sessions rpc a of
             None \<Rightarrow> Inl InvalidPointer
           | Some s \<Rightarrow>
               if \<not> is_client s then Inl AssertFailed
               else
                 let pkt = SessionMgmtPkt_default
                             \<lparr>pkt_type := ty, pkt_client := client s, pkt_server := server s\<rparr>
                 in Inr (rpc\<lparr>sm_tx_list := sm_tx_list rpc @
                           [\<lparr>wi_rpc_id = rpc_app_tid rpc, sm_pkt = Some pkt, epeer = None\<rparr>]\<rparr>)))"

text \<open>\<open>Rpc::enqueue_sm_resp\<close> (rpc_sm_helpers.cc).\<close>

definition enqueue_sm_resp :: "SmWorkItem ptr \<Rightarrow> SessionMgmtErrType \<Rightarrow> Rpc \<Rightarrow> fault + Rpc" where
  "enqueue_sm_resp req_wi err rpc =
     (case req_wi of
        None \<Rightarrow> Inl AssertFailed
      | Some rwi \<Rightarrow>
          if epeer rwi = None then Inl AssertFailed
          else
            (case sm_pkt rwi of
               None \<Rightarrow> Inl AssertFailed
             | Some req \<Rightarrow>
                 if \<not> is_req req then Inl AssertFailed
                 else
                   (case session_mgmt_pkt_type_req_to_resp (pkt_type req) of
                      Inl e \<Rightarrow> Inl e
                    | Inr ty \<Rightarrow>
                        let pkt = req\<lparr>pkt_type := ty, err_type := err\<rparr>
                        in Inr (rpc\<lparr>sm_tx_list := sm_tx_list rpc @
                                  [\<lparr>wi_rpc_id = rpc_app_tid rpc, sm_pkt = Some pkt,
                                    epeer = epeer rwi\<rparr>]\<rparr>))))"

text \<open>
  Modelled from the spec: the management-retry queue functions and the senders of
  rpc_sm_retry.cc are declared in rpc.h and defined outside the verified files.
  \<open>mgmt_retry_queue_add\<close> adds the session to the retry queue, after checking that the
  session is not in flight (the comment at its call in \<open>destroy_session\<close>).
  \<open>send_connect_req_one\<close> and \<open>send_disconnect_req_one\<close> enqueue a \<open>ConnectReq\<close> and a
  \<open>DisconnectReq\<close> for the session via the management mailbox.
\<close>

definition mgmt_retry_queue_contains :: "Rpc \<Rightarrow> addr \<Rightarrow> bool" where
  "mgmt_retry_queue_contains rpc a \<longleftrightarrow> a \<in> set (mgmt_retry_queue rpc)"

definition mgmt_retry_queue_add :: "addr \<Rightarrow> Rpc \<Rightarrow> fault + Rpc" where
  "mgmt_retry_queue_add a rpc =
     (if mgmt_retry_queue_contains rpc a then Inl AssertFailed
      else Inr (rpc\<lparr>mgmt_retry_queue := mgmt_retry_queue rpc @ [a]\<rparr>))"

definition send_connect_req_one :: "addr \<Rightarrow> Rpc \<Rightarrow> fault + Rpc" where
  "send_connect_req_one a rpc = enqueue_sm_req (Some a) kConnectReq rpc"

definition send_disconnect_req_one :: "addr \<Rightarrow> Rpc \<Rightarrow> fault + Rpc" where
  "send_disconnect_req_one a rpc = enqueue_sm_req (Some a) kDisconnectReq rpc"


section \<open>Creating and destroying sessions (rpc_sm_api.cc)\<close>

text \<open>
  The loop of \<open>create_session\<close> over \<open>session_vec\<close> that looks for a session to the same
  remote Rpc. It returns at the first match.
\<close>

fun session_exists :: "(addr \<rightharpoonup> Session) \<Rightarrow> string \<Rightarrow> uint8_t \<Rightarrow> addr ptr list \<Rightarrow> fault + bool" where
  "session_exists hp rem_hostname rem_app_tid [] = Inr False"
| "session_exists hp rem_hostname rem_app_tid (None # rest) =
     session_exists hp rem_hostname rem_app_tid rest"
| "session_exists hp rem_hostname rem_app_tid (Some a # rest) =
     (case hp a of
        None \<Rightarrow> Inl InvalidPointer
      | Some existing_session \<Rightarrow>
          if hostname (server existing_session) = rem_hostname \<and>
             app_tid (server existing_session) = rem_app_tid
          then (if \<not> is_client existing_session then Inl AssertFailed else Inr True)
          else session_exists hp rem_hostname rem_app_tid rest)"

text \<open>
  The inner loop of \<open>create_session\<close> that frees the preallocated buffers \<open>0 .. i - 1\<close>
  after the allocation of buffer \<open>i\<close> failed; the list holds the indices \<open>j\<close> still to
  visit.
\<close>

fun free_prealloc :: "Session \<Rightarrow> nat list \<Rightarrow> HugeAlloc \<Rightarrow> fault + HugeAlloc" where
  "free_prealloc s [] h = Inr h"
| "free_prealloc s (j # js) h =
     (let resp_msgbuf_j = pre_resp_msgbuf (sslot_arr s ! j) in
      if buf resp_msgbuf_j = None then Inl AssertFailed
      else
        (case free_msg_buffer h resp_msgbuf_j of
           Inl e \<Rightarrow> Inl e
         | Inr h' \<Rightarrow> free_prealloc s js h'))"

text \<open>
  The loop of \<open>create_session\<close> that fills the preallocated response buffers, from slot
  \<open>i\<close> on. The result is \<open>True\<close> when every buffer was allocated, and \<open>False\<close> when an
  allocation failed and the buffers allocated before it were freed.
\<close>

function fill_prealloc :: "Config \<Rightarrow> nat \<Rightarrow> Session \<Rightarrow> HugeAlloc \<Rightarrow> fault + (bool \<times> Session \<times> HugeAlloc)" where
  "fill_prealloc cfg i s h =
     (if i < kSessionReqWindow cfg then
        (case alloc_msg_buffer cfg h (kMaxDataPerPkt cfg) of
           Inl e \<Rightarrow> Inl e
         | Inr (resp_msgbuf_i, h1) \<Rightarrow>
             let s1 = s\<lparr>sslot_arr := (sslot_arr s)
                         [i := (sslot_arr s ! i)\<lparr>pre_resp_msgbuf := resp_msgbuf_i\<rparr>]\<rparr>
             in if buf resp_msgbuf_i = None then
                  (case free_prealloc s1 [0..<i] h1 of
                     Inl e \<Rightarrow> Inl e
                   | Inr h2 \<Rightarrow> Inr (False, s1, h2))
                else fill_prealloc cfg (i + 1) s1 h1)
      else Inr (True, s, h))"
  by pat_completeness auto
termination
  by (relation "measure (\<lambda>(cfg, i, s, h). kSessionReqWindow cfg - i)") auto

declare fill_prealloc.simps [simp del]

text \<open>
  \<open>new Session(...)\<close>: the object is constructed at the address that the heap hands
  out. The heap never hands out the address of a live object; it may hand out the
  address of a deleted one.
\<close>

definition new_Session :: "Config \<Rightarrow> Role \<Rightarrow> SessionState \<Rightarrow> Rpc \<Rightarrow> addr \<times> Rpc" where
  "new_Session cfg r st rpc =
     (let a = shd (session_addrs rpc)
      in (a, rpc\<lparr>sessions := (sessions rpc)(a \<mapsto> Session_ctor cfg a r st),
                 session_addrs := stl (session_addrs rpc)\<rparr>))"

text \<open>
  \<open>Rpc::create_session\<close>. The result is the returned pointer (\<open>None\<close> for \<open>nullptr\<close>) and
  the Rpc after the call. Debug printing is left out.
\<close>

definition create_session ::
  "Config \<Rightarrow> int \<Rightarrow> string ptr \<Rightarrow> uint8_t \<Rightarrow> uint8_t \<Rightarrow> Rpc \<Rightarrow> fault + (addr ptr \<times> Rpc)" where
  "create_session cfg tid rem_hostname_p rem_app_tid rem_phy_port rpc =
     (if \<not> in_creator tid rpc then Inr (None, rpc)
      else if unat rem_phy_port \<ge> kMaxPhyPorts cfg then Inr (None, rpc)
      else
        (case rem_hostname_p of
           None \<Rightarrow> Inr (None, rpc)
         | Some rem_hostname \<Rightarrow>
             if length rem_hostname > kMaxHostnameLen cfg then Inr (None, rpc)
             else if rem_hostname = nexus_hostname rpc \<and> rem_app_tid = rpc_app_tid rpc
               then Inr (None, rpc)
             else
               (case session_exists (sessions rpc) rem_hostname rem_app_tid (session_vec rpc) of
                  Inl e \<Rightarrow> Inl e
                | Inr True \<Rightarrow> Inr (None, rpc)
                | Inr False \<Rightarrow>
                    if length (session_vec rpc) \<ge> kMaxSessionsPerThread cfg then Inr (None, rpc)
                    else
                      (case new_Session cfg kClient kConnectInProgress rpc of
                         (a, rpc1) \<Rightarrow>
                           (case fill_prealloc cfg 0 (Session_ctor cfg a kClient kConnectInProgress)
                                   (huge_alloc rpc1) of
                              Inl e \<Rightarrow> Inl e
                            | Inr (False, s1, h1) \<Rightarrow>
                                Inr (None, rpc1\<lparr>huge_alloc := h1,
                                                sessions := (sessions rpc1)(a \<mapsto> s1)\<rparr>)
                            | Inr (True, s1, h1) \<Rightarrow>
                                let client_endpoint =
                                      (client s1)
                                        \<lparr>transport_type := tr_transport_type (transport rpc1),
                                         hostname := nexus_hostname rpc1,
                                         phy_port := rpc_phy_port rpc1,
                                         app_tid := rpc_app_tid rpc1,
                                         session_num := length (session_vec rpc1),
                                         secret := shd (slow_rand rpc1) AND
                                                     (push_bit kSecretBits 1 - 1),
                                         routing_info :=
                                           fill_local_routing_info (transport rpc1)\<rparr>;
                                    server_endpoint =
                                      (server s1)
                                        \<lparr>transport_type := tr_transport_type (transport rpc1),
                                         hostname := rem_hostname,
                                         phy_port := rem_phy_port,
                                         app_tid := rem_app_tid,
                                         secret := secret client_endpoint\<rparr>;
                                    s2 = s1\<lparr>client := client_endpoint, server := server_endpoint,
                                           local_session_num := session_num client_endpoint\<rparr>;
                                    rpc2 = rpc1\<lparr>huge_alloc := h1,
                                             slow_rand := stl (slow_rand rpc1),
                                             sessions := (sessions rpc1)(a \<mapsto> s2),
                                             session_vec := session_vec rpc1 @ [Some a]\<rparr>
                                in (case mgmt_retry_queue_add a rpc2 of
                                      Inl e \<Rightarrow> Inl e
                                    | Inr rpc3 \<Rightarrow>
                                        (case send_connect_req_one a rpc3 of
                                           Inl e \<Rightarrow> Inl e
                                         | Inr rpc4 \<Rightarrow> Inr (Some a, rpc4))))))))"

text \<open>\<open>Rpc::destroy_session\<close>. The result is the returned flag and the Rpc after the call.\<close>

definition destroy_session :: "int \<Rightarrow> addr ptr \<Rightarrow> Rpc \<Rightarrow> fault + (bool \<times> Rpc)" where
  "destroy_session tid session_p rpc =
     (if \<not> in_creator tid rpc then Inr (False, rpc)
      else
        (case session_p of
           None \<Rightarrow> Inr (False, rpc)
         | Some a \<Rightarrow>
             (case sessions rpc a of
                None \<Rightarrow> Inl InvalidPointer
              | Some s \<Rightarrow>
                  if \<not> is_client s then Inr (False, rpc)
                  else
                    (case state s of
                       kConnectInProgress \<Rightarrow>
                         if \<not> mgmt_retry_queue_contains rpc a then Inl AssertFailed
                         else Inr (False, rpc)
                     | kConnected \<Rightarrow>
                         (case mgmt_retry_queue_add a
                                 (rpc\<lparr>sessions := (sessions rpc)
                                        (a \<mapsto> s\<lparr>state := kDisconnectInProgress\<rparr>)\<rparr>) of
                            Inl e \<Rightarrow> Inl e
                          | Inr rpc1 \<Rightarrow>
                              (case send_disconnect_req_one a rpc1 of
                                 Inl e \<Rightarrow> Inl e
                               | Inr rpc2 \<Rightarrow> Inr (True, rpc2)))
                     | kDisconnectInProgress \<Rightarrow>
                         if \<not> mgmt_retry_queue_contains rpc a then Inl AssertFailed
                         else Inr (False, rpc)
                     | kDisconnected \<Rightarrow>
                         if mgmt_retry_queue_contains rpc a then Inl AssertFailed
                         else Inr (False, rpc)))))"

section \<open>Burying sessions and slots\<close>

text \<open>
  The loop of \<open>bury_session_st\<close> (rpc_sm_helpers.cc) that frees the preallocated buffer
  of every slot; the list holds the slot indices still to visit.
\<close>

fun free_session_resources :: "Session \<Rightarrow> nat list \<Rightarrow> HugeAlloc \<Rightarrow> fault + HugeAlloc" where
  "free_session_resources s [] h = Inr h"
| "free_session_resources s (i # is) h =
     (case free_msg_buffer h (pre_resp_msgbuf (sslot_arr s ! i)) of
        Inl e \<Rightarrow> Inl e
      | Inr h' \<Rightarrow> free_session_resources s is h')"

text \<open>
  \<open>Rpc::bury_session_st\<close>. \<open>session_vec.at\<close> throws \<open>std::out_of_range\<close> for an index
  outside the vector; \<open>delete\<close> ends the life of the session object.
\<close>

definition bury_session_st :: "Config \<Rightarrow> int \<Rightarrow> addr ptr \<Rightarrow> Rpc \<Rightarrow> fault + Rpc" where
  "bury_session_st cfg tid session_p rpc =
     (if \<not> in_creator tid rpc then Inl AssertFailed
      else
        (case session_p of
           None \<Rightarrow> Inl AssertFailed
         | Some a \<Rightarrow>
             (case sessions rpc a of
                None \<Rightarrow> Inl InvalidPointer
              | Some s \<Rightarrow>
                  if is_client s \<and> sm_api_req_pending s then Inl AssertFailed
                  else
                    (case free_session_resources s [0..<kSessionReqWindow cfg] (huge_alloc rpc) of
                       Inl e \<Rightarrow> Inl e
                     | Inr h' \<Rightarrow>
                         if \<not> local_session_num s < length (session_vec rpc) then Inl OutOfRange
                         else Inr (rpc\<lparr>huge_alloc := h',
                                      session_vec := (session_vec rpc)[local_session_num s := None],
                                      sessions := (sessions rpc)(a := None)\<rparr>)))))"

text \<open>\<open>Rpc::bury_sslot_rx_msgbuf\<close> (rpc.h), on the slot and the allocator.\<close>

definition bury_sslot_rx_msgbuf :: "SSlot \<Rightarrow> HugeAlloc \<Rightarrow> fault + (SSlot \<times> HugeAlloc)" where
  "bury_sslot_rx_msgbuf sslot h =
     (let rx = rx_msgbuf sslot in
      if is_dynamic rx then
        (if \<not> (buf rx \<noteq> None \<and> check_magic rx) then Inl AssertFailed
         else
           (case free_msg_buffer h rx of
              Inl e \<Rightarrow> Inl e
            | Inr h' \<Rightarrow>
                Inr (sslot\<lparr>rx_msgbuf := rx\<lparr>buffer := (buffer rx)\<lparr>b_buf := None\<rparr>,
                                           buf := None\<rparr>\<rparr>, h')))
      else Inr (sslot\<lparr>rx_msgbuf := rx\<lparr>buf := None\<rparr>\<rparr>, h))"

text \<open>
  \<open>Rpc::release_respone\<close> (rpc.h). A response handle is a pointer to a slot: the address
  of the session that holds the slot and the position of the slot in its \<open>sslot_arr\<close>.
  The session whose free-slot vector grows is the one the slot's field \<open>session\<close> points
  to.
\<close>

definition release_respone :: "(addr \<times> nat) ptr \<Rightarrow> Rpc \<Rightarrow> fault + Rpc" where
  "release_respone resp_handle rpc =
     (case resp_handle of
        None \<Rightarrow> Inl AssertFailed
      | Some (a, i) \<Rightarrow>
          (case sessions rpc a of
             None \<Rightarrow> Inl InvalidPointer
           | Some holder \<Rightarrow>
               if \<not> i < length (sslot_arr holder) then Inl InvalidPointer
               else
                 let sslot = sslot_arr holder ! i in
                 if tx_msgbuf sslot \<noteq> None then Inl AssertFailed
                 else
                   (case bury_sslot_rx_msgbuf sslot (huge_alloc rpc) of
                      Inl e \<Rightarrow> Inl e
                    | Inr (sslot', h') \<Rightarrow>
                        let rpc1 = rpc\<lparr>huge_alloc := h',
                                       sessions := (sessions rpc)
                                         (a \<mapsto> holder\<lparr>sslot_arr := (sslot_arr holder)[i := sslot']\<rparr>)\<rparr>
                        in (case sessions rpc1 (sslot_session sslot') of
                              None \<Rightarrow> Inl InvalidPointer
                            | Some s \<Rightarrow>
                                if \<not> is_client s then Inl AssertFailed
                                else Inr (rpc1\<lparr>sessions := (sessions rpc1)
                                           (sslot_session sslot' \<mapsto>
                                              s\<lparr>sslot_free_vec := sslot_free_vec s @ [index sslot']\<rparr>)\<rparr>)))))"

section \<open>The TX work queue and the event loop (rpc.h)\<close>

text \<open>\<open>Rpc::upsert_datapath_tx_work_queue\<close>.\<close>

definition upsert_datapath_tx_work_queue :: "addr ptr \<Rightarrow> Rpc \<Rightarrow> fault + Rpc" where
  "upsert_datapath_tx_work_queue session_p rpc =
     (case session_p of
        None \<Rightarrow> Inl AssertFailed
      | Some a \<Rightarrow>
          (case sessions rpc a of
             None \<Rightarrow> Inl InvalidPointer
           | Some s \<Rightarrow>
               if \<not> in_datapath_tx_work_queue s then
                 Inr (rpc\<lparr>sessions := (sessions rpc)(a \<mapsto> s\<lparr>in_datapath_tx_work_queue := True\<rparr>),
                         datapath_tx_work_queue := datapath_tx_work_queue rpc @ [a]\<rparr>)
               else Inr rpc))"




text \<open>
  Modelled from the spec: \<open>dpath_stat_inc\<close> is defined outside the verified files. The
  spec gives an iteration of the event loop no effect beside its four steps; the call
  counts the iteration in \<open>dpath_stats.ev_loop_calls\<close>.
\<close>

definition dpath_stat_inc_ev_loop_calls :: "Rpc \<Rightarrow> Rpc" where
  "dpath_stat_inc_ev_loop_calls rpc = rpc\<lparr>ev_loop_calls := ev_loop_calls rpc + 1\<rparr>"

text \<open>
  The four callees of the event loop are defined outside the verified files: what a
  callee does to the Rpc is the parameter \<open>body\<close>. A callee returns with the Rpc it
  leaves behind, or it does not return: \<open>handle_session_mgmt_st\<close> throws
  \<open>runtime_error\<close> for a packet of invalid type, and the callees assert. The event loop
  catches nothing, so that a callee that does not return ends the iteration. A call is
  reported with the name of the callee and its outcome.
\<close>

definition call :: "(callee \<Rightarrow> Rpc \<Rightarrow> fault + Rpc) \<Rightarrow> callee \<Rightarrow> Rpc \<Rightarrow> callee list \<times> (fault + Rpc)" where
  "call body c rpc = ([c], body c rpc)"

text \<open>
  \<open>Rpc::run_event_loop_one\<close>. The result is the list of the calls to the four callees
  that the iteration made, in the order in which it made them, and the outcome of the
  iteration.
\<close>

definition run_event_loop_one ::
  "(callee \<Rightarrow> Rpc \<Rightarrow> fault + Rpc) \<Rightarrow> int \<Rightarrow> Rpc \<Rightarrow> callee list \<times> (fault + Rpc)" where
  "run_event_loop_one body tid rpc =
     (if \<not> in_creator tid rpc then ([], Inl AssertFailed)
      else
        let rpc1 = dpath_stat_inc_ev_loop_calls rpc in
        (case (if length (sm_pkt_list rpc1) > 0
               then call body HandleSessionManagement rpc1 else ([], Inr rpc1)) of
           (calls2, Inl e) \<Rightarrow> (calls2, Inl e)
         | (calls2, Inr rpc2) \<Rightarrow>
             (case (if length (mgmt_retry_queue rpc2) > 0
                    then call body MgmtRetry rpc2 else ([], Inr rpc2)) of
                (calls3, Inl e) \<Rightarrow> (calls2 @ calls3, Inl e)
              | (calls3, Inr rpc3) \<Rightarrow>
                  (case call body ProcessCompletions rpc3 of
                     (calls4, Inl e) \<Rightarrow> (calls2 @ calls3 @ calls4, Inl e)
                   | (calls4, Inr rpc4) \<Rightarrow>
                       (case call body ProcessDatapathTxWorkQueue rpc4 of
                          (calls5, res) \<Rightarrow> (calls2 @ calls3 @ calls4 @ calls5, res))))))"

section \<open>Runs of the engine\<close>

text \<open>
  The calls into the engine whose code is verified here, and runs of them: a run stops
  at the first call that does not return.
\<close>

datatype action =
  CreateSession int "string ptr" uint8_t uint8_t
| DestroySession int "addr ptr"
| BurySession int "addr ptr"
| ReleaseResponse "(addr \<times> nat) ptr"
| UpsertTxQueue "addr ptr"
| EnqueueSmResp "SmWorkItem ptr" SessionMgmtErrType

fun do_action :: "Config \<Rightarrow> action \<Rightarrow> Rpc \<Rightarrow> fault + Rpc" where
  "do_action cfg (CreateSession tid h t p) rpc =
     (case create_session cfg tid h t p rpc of
        Inl e \<Rightarrow> Inl e
      | Inr (r, rpc') \<Rightarrow> Inr rpc')"
| "do_action cfg (DestroySession tid sp) rpc =
     (case destroy_session tid sp rpc of
        Inl e \<Rightarrow> Inl e
      | Inr (r, rpc') \<Rightarrow> Inr rpc')"
| "do_action cfg (BurySession tid sp) rpc = bury_session_st cfg tid sp rpc"
| "do_action cfg (ReleaseResponse rh) rpc = release_respone rh rpc"
| "do_action cfg (UpsertTxQueue sp) rpc = upsert_datapath_tx_work_queue sp rpc"
| "do_action cfg (EnqueueSmResp wi err) rpc = enqueue_sm_resp wi err rpc"

fun run_actions :: "Config \<Rightarrow> action list \<Rightarrow> Rpc \<Rightarrow> fault + Rpc" where
  "run_actions cfg [] rpc = Inr rpc"
| "run_actions cfg (x # xs) rpc =
     (case do_action cfg x rpc of
        Inl e \<Rightarrow> Inl e
      | Inr rpc' \<Rightarrow> run_actions cfg xs rpc')"







section \<open>Predicates of the properties\<close>

text \<open>
  What \<open>destroy_session\<close> asserts about the management-retry queue: a session is in the
  queue exactly while a connect or disconnect request for it is in flight.
\<close>

definition retry_queue_consistent :: "Rpc \<Rightarrow> addr \<Rightarrow> Session \<Rightarrow> bool" where
  "retry_queue_consistent rpc a s \<longleftrightarrow>
     (mgmt_retry_queue_contains rpc a \<longleftrightarrow> state s \<in> {kConnectInProgress, kDisconnectInProgress})"

text \<open>The work item of a management request of type \<open>ty\<close> for session \<open>s\<close>.\<close>

definition sm_req_of :: "Rpc \<Rightarrow> SessionMgmtPktType \<Rightarrow> Session \<Rightarrow> SmWorkItem" where
  "sm_req_of rpc ty s =
     \<lparr>wi_rpc_id = rpc_app_tid rpc,
      sm_pkt = Some \<lparr>pkt_type = ty, err_type = 0, pkt_client = client s,
                     pkt_server = server s\<rparr>,
      epeer = None\<rparr>"


text \<open>The backing buffers of the preallocated response buffers of the slots \<open>js\<close>.\<close>

definition pre_resp_buffers :: "Session \<Rightarrow> nat list \<Rightarrow> Buffer list" where
  "pre_resp_buffers s js = map (\<lambda>j. buffer (pre_resp_msgbuf (sslot_arr s ! j))) js"

text \<open>
  The number of bytes that \<open>create_session\<close> requests from the allocator for one
  preallocated response buffer.
\<close>

definition prealloc_size :: "Config \<Rightarrow> nat" where
  "prealloc_size cfg =
     unat (kMaxDataPerPkt cfg + calc_num_pkts cfg (kMaxDataPerPkt cfg) * sizeof_pkthdr_t)"

text \<open>
  The argument checks of \<open>create_session\<close>: the caller is the creator, the remote port
  is in range, the hostname is non-null and not too long, the remote Rpc is not this
  Rpc, no session of the session vector has a server endpoint with the hostname and
  the endpoint id of the remote Rpc, and the session vector is below its limit.
\<close>

definition create_session_checks :: "Config \<Rightarrow> int \<Rightarrow> string ptr \<Rightarrow> uint8_t \<Rightarrow> uint8_t \<Rightarrow> Rpc \<Rightarrow> bool" where
  "create_session_checks cfg tid hp t p rpc \<longleftrightarrow>
     in_creator tid rpc \<and> unat p < kMaxPhyPorts cfg \<and>
     (\<exists>host. hp = Some host \<and> length host \<le> kMaxHostnameLen cfg \<and>
        \<not> (host = nexus_hostname rpc \<and> t = rpc_app_tid rpc) \<and>
        \<not> (\<exists>a s. Some a \<in> set (session_vec rpc) \<and> sessions rpc a = Some s \<and>
                 hostname (server s) = host \<and> app_tid (server s) = t)) \<and>
     length (session_vec rpc) < kMaxSessionsPerThread cfg"

text \<open>
  What the loop of \<open>create_session\<close> over the session vector relies on: every non-null
  entry points to a live session, and a session whose server endpoint is the remote Rpc
  \<open>(host, t)\<close> is a client session (the assertion in the loop).
\<close>

definition session_vec_sound :: "Rpc \<Rightarrow> string \<Rightarrow> uint8_t \<Rightarrow> bool" where
  "session_vec_sound rpc host t \<longleftrightarrow>
     (\<forall>a. Some a \<in> set (session_vec rpc) \<longrightarrow>
        (\<exists>s. sessions rpc a = Some s \<and>
             (hostname (server s) = host \<and> app_tid (server s) = t \<longrightarrow> is_client s)))"

text \<open>
  The endpoint descriptors that \<open>create_session\<close> fills in for a session to the remote
  Rpc \<open>(host, t)\<close> on port \<open>p\<close>, and the session that results from the session \<open>s1\<close>
  with its preallocated buffers.
\<close>

definition new_client_endpoint :: "Rpc \<Rightarrow> SessionEndpoint" where
  "new_client_endpoint rpc =
     \<lparr>transport_type = tr_transport_type (transport rpc),
      hostname = nexus_hostname rpc, phy_port = rpc_phy_port rpc,
      app_tid = rpc_app_tid rpc, session_num = length (session_vec rpc),
      secret = shd (slow_rand rpc) AND (push_bit kSecretBits 1 - 1),
      routing_info = fill_local_routing_info (transport rpc)\<rparr>"

definition new_server_endpoint :: "Rpc \<Rightarrow> string \<Rightarrow> uint8_t \<Rightarrow> uint8_t \<Rightarrow> SessionEndpoint" where
  "new_server_endpoint rpc host t p =
     SessionEndpoint_default
       \<lparr>transport_type := tr_transport_type (transport rpc),
        hostname := host, phy_port := p, app_tid := t,
        secret := shd (slow_rand rpc) AND (push_bit kSecretBits 1 - 1)\<rparr>"

definition new_client_session :: "Rpc \<Rightarrow> string \<Rightarrow> uint8_t \<Rightarrow> uint8_t \<Rightarrow> Session \<Rightarrow> Session" where
  "new_client_session rpc host t p s1 =
     s1\<lparr>client := new_client_endpoint rpc, server := new_server_endpoint rpc host t p,
        local_session_num := length (session_vec rpc)\<rparr>"



text \<open>
  A later session vector keeps the null entries of an earlier one: it is at least as
  long, and an index that was null is null.
\<close>

definition nulls_kept :: "addr ptr list \<Rightarrow> addr ptr list \<Rightarrow> bool" where
  "nulls_kept v v' \<longleftrightarrow>
     length v \<le> length v' \<and> (\<forall>i < length v. v ! i = None \<longrightarrow> v' ! i = None)"

section \<open>A concrete configuration and concrete states\<close>

text \<open>
  A configuration with \<open>MaxDataPerPacket = 1024\<close> and a request window of 8, as in the
  examples of the specification, an allocator with 10000 bytes left, and an Rpc on
  host \<open>host-a\<close> created by thread 100, whose heap hands out the addresses 0, 1, 2
  and so on.
\<close>

definition example_cfg :: Config where
  "example_cfg =
     \<lparr>kMaxDataPerPkt = 1024, kMaxClassSize = 8388608, kSessionReqWindow = 8,
      kMaxSessionsPerThread = 4, kMaxPhyPorts = 4, kMaxHostnameLen = 16\<rparr>"

definition example_alloc :: HugeAlloc where
  "example_alloc = \<lparr>avail_bytes = 10000, next_free = 4096, user_allocs = []\<rparr>"

definition example_msgbuf :: MsgBuffer where
  "example_msgbuf = MsgBuffer_ctor \<lparr>b_buf = Some 4096, class_size = 3048\<rparr> 3000 3"

definition example_rpc :: Rpc where
  "example_rpc =
     Rpc_init ''host-a'' 3 0 100 \<lparr>tr_transport_type = 1, local_routing_info = [7, 7]\<rparr>
       example_alloc (sconst 0xABCD123456789ABC) (siterate Suc 0)"

text \<open>The Rpc with one connected client session at address 0.\<close>

definition example_connected_rpc :: Rpc where
  "example_connected_rpc =
     example_rpc\<lparr>sessions := [0 \<mapsto> Session_ctor example_cfg 0 kClient kConnected],
                 session_addrs := siterate Suc 1, session_vec := [Some 0]\<rparr>"

text \<open>A connect request from \<open>host-b\<close>, and the work item that delivers it.\<close>

definition example_connect_req :: SessionMgmtPkt where
  "example_connect_req =
     \<lparr>pkt_type = kConnectReq, err_type = 0,
      pkt_client = SessionEndpoint_default\<lparr>hostname := ''host-b'', secret := 0xBEEF\<rparr>,
      pkt_server = SessionEndpoint_default\<lparr>hostname := ''host-a'', secret := 0xBEEF\<rparr>\<rparr>"

definition example_req_wi :: SmWorkItem where
  "example_req_wi = \<lparr>wi_rpc_id = 3, sm_pkt = Some example_connect_req, epeer = Some 9\<rparr>"

text \<open>
  Two behaviours of the event loop's callees for the examples. In the first, handling
  the mailbox empties it and puts session 0 into the management-retry queue, and the
  other callees change nothing. In the second, the handling of the mailbox throws.
\<close>

fun example_body :: "callee \<Rightarrow> Rpc \<Rightarrow> fault + Rpc" where
  "example_body HandleSessionManagement rpc =
     Inr (rpc\<lparr>sm_pkt_list := [], mgmt_retry_queue := [0]\<rparr>)"
| "example_body c rpc = Inr rpc"

fun example_throwing_body :: "callee \<Rightarrow> Rpc \<Rightarrow> fault + Rpc" where
  "example_throwing_body HandleSessionManagement rpc = Inl RuntimeError"
| "example_throwing_body c rpc = Inr rpc"

text \<open>The Rpc after its creator has created a session to \<open>host-b\<close>.\<close>

definition example_session_rpc :: Rpc where
  "example_session_rpc =
     (case create_session example_cfg 100 (Some ''host-b'') 7 0 example_rpc of
        Inr (r, rpc') \<Rightarrow> rpc'
      | Inl e \<Rightarrow> example_rpc)"


text \<open>
  An Rpc whose allocator has 3000 bytes left, enough for two of the eight preallocated
  buffers.
\<close>

definition example_low_memory_rpc :: Rpc where
  "example_low_memory_rpc = example_rpc\<lparr>huge_alloc := example_alloc\<lparr>avail_bytes := 3000\<rparr>\<rparr>"



section \<open>Evaluation on concrete states\<close>

text \<open>Facts for the evaluation of the functions on the concrete states.\<close>

lemmas example_eval =
  create_session_def example_cfg_def example_rpc_def Rpc_init_def in_creator_def
  new_Session_def Session_ctor_def SSlot_ctor_def fill_prealloc.simps alloc_msg_buffer_def
  calc_num_pkts_def sizeof_pkthdr_t_def HugeAlloc_alloc_def example_alloc_def
  MsgBuffer_ctor_def MsgBuffer_default_def Let_def mgmt_retry_queue_add_def
  mgmt_retry_queue_contains_def send_connect_req_one_def enqueue_sm_req_def is_client_def
  free_msg_buffer_def HugeAlloc_free_buf_def is_dynamic_def check_magic_def null_Buffer_def

lemma upt_0_8: "[0..<8] = [0, 1, 2, 3, 4, 5, 6, 7 :: nat]"
  by code_simp

lemma example_cfg_static_asserts: "static_asserts example_cfg"
  by (simp add: static_asserts_def example_cfg_def kMaxMsgSize_def sizeof_pkthdr_t_def
      kMsgSizeBits_def kPktNumBits_def)

section \<open>Packet counts and buffer allocation\<close>

lemma ceil_div_nat:
  assumes "0 < d"
  shows "int ((m + d - 1) div d) = \<lceil>real m / real d\<rceil>"
proof -
  define k where "k = (m + d - 1) div d"
  have lo: "k * d \<le> m + d - 1"
    unfolding k_def by simp
  have hi: "m + d - 1 < (k + 1) * d"
    unfolding k_def using assms
    by (metis Suc_eq_plus1 dividend_less_div_times mult.commute mult_Suc)
  from hi assms have a: "m \<le> k * d" by simp
  from lo assms have b: "k * d < m + d" by simp
  have "real m \<le> real k * real d"
    using a by (metis of_nat_le_iff of_nat_mult)
  then have c: "real m / real d \<le> real k"
    using assms by (simp add: field_simps)
  have "real k * real d < real m + real d"
    using b by (metis of_nat_less_iff of_nat_mult of_nat_add)
  then have d: "real k - 1 < real m / real d"
    using assms by (simp add: field_simps)
  have "\<lceil>real m / real d\<rceil> = int k"
    by (rule ceiling_unique) (use c d in simp_all)
  then show ?thesis by (simp add: k_def)
qed

lemma msg_size_bound:
  assumes "static_asserts cfg" "m \<le> kMaxMsgSize cfg"
  shows "unat m \<le> 2 ^ 24"
proof -
  have "m \<le> push_bit kMsgSizeBits (1 :: size_t)"
    using assms by (auto simp add: static_asserts_def)
  then have "unat m \<le> unat (push_bit kMsgSizeBits (1 :: size_t))"
    by (simp add: word_le_nat_alt)
  then show ?thesis by (simp add: kMsgSizeBits_def)
qed

lemma calc_num_pkts_large:
  assumes "kMaxDataPerPkt cfg \<noteq> 0" "\<not> sz \<le> kMaxDataPerPkt cfg" "unat sz \<le> 2 ^ 24"
  shows "unat (calc_num_pkts cfg sz) =
           (unat sz + unat (kMaxDataPerPkt cfg) - 1) div unat (kMaxDataPerPkt cfg)"
proof -
  let ?D = "kMaxDataPerPkt cfg"
  have Dpos: "0 < unat ?D" using assms(1) by (simp add: unat_gt_0)
  have Dlt: "unat ?D < unat sz" using assms(2) by (simp add: word_le_nat_alt)
  have D1: "unat (?D - 1) = unat ?D - 1"
    using assms(1) by (simp add: unat_minus_one)
  have "unat sz + unat (?D - 1) < 2 ^ 64"
    using Dlt assms(3) D1 by simp
  then have "unat (sz + (?D - 1)) = unat sz + unat (?D - 1)"
    by (subst unat_add_lem [symmetric]) simp
  then have "unat ((sz + (?D - 1)) div ?D) = (unat sz + unat ?D - 1) div unat ?D"
    using D1 Dpos by (simp add: unat_div)
  then show ?thesis using assms(2) by (simp add: calc_num_pkts_def)
qed

lemma calc_num_pkts_le:
  assumes "kMaxDataPerPkt cfg \<noteq> 0" "unat sz \<le> 2 ^ 24"
  shows "unat (calc_num_pkts cfg sz) \<le> 2 ^ 24"
proof (cases "sz \<le> kMaxDataPerPkt cfg")
  case True
  then show ?thesis by (simp add: calc_num_pkts_def)
next
  case False
  let ?D = "unat (kMaxDataPerPkt cfg)"
  have Dpos: "0 < ?D" using assms(1) by (simp add: unat_gt_0)
  have "(unat sz + ?D - 1) div ?D \<le> unat sz"
  proof -
    have "unat sz + ?D - 1 \<le> unat sz * ?D"
      using Dpos False
      by (cases "unat sz"; cases ?D) (auto simp: word_le_nat_alt)
    then have "(unat sz + ?D - 1) div ?D \<le> (unat sz * ?D) div ?D"
      by (rule div_le_mono)
    then show ?thesis using Dpos by simp
  qed
  then show ?thesis
    using calc_num_pkts_large [OF assms(1) False assms(2)] assms(2) by simp
qed

lemma alloc_request_exact:
  assumes "static_asserts cfg" "max_size \<le> kMaxMsgSize cfg"
  shows "unat (max_size + calc_num_pkts cfg max_size * sizeof_pkthdr_t)
           = unat max_size + unat (calc_num_pkts cfg max_size) * 16"
proof -
  let ?p = "calc_num_pkts cfg max_size"
  have m: "unat max_size \<le> 2 ^ 24" using assms by (rule msg_size_bound)
  have p: "unat ?p \<le> 2 ^ 24"
    using assms(1) m by (intro calc_num_pkts_le) (simp_all add: static_asserts_def)
  have "unat ?p * unat (16 :: size_t) < 2 ^ LENGTH(64)" using p by simp
  then have "unat (?p * 16) = unat ?p * unat (16 :: size_t)"
    by (simp only: unat_mult_lem)
  then have mul: "unat (?p * 16) = unat ?p * 16" by simp
  have "unat max_size + unat (?p * 16) < 2 ^ 64" using m p mul by simp
  then have "unat (max_size + ?p * 16) = unat max_size + unat (?p * 16)"
    by (subst unat_add_lem [symmetric]) simp
  then show ?thesis using mul by (simp add: sizeof_pkthdr_t_def)
qed

text \<open>
  Claim C4. For every \<open>max_size\<close> up to \<open>kMaxMsgSize\<close> (in a configuration that passes the
  static assertions of the class), \<open>alloc_msg_buffer\<close> computes the packet count \<open>p\<close>,
  which is 1 when \<open>max_size\<close> is at most \<open>kMaxDataPerPkt\<close> (also for 0 and for exactly
  \<open>kMaxDataPerPkt\<close>) and the ceiling of \<open>max_size / kMaxDataPerPkt\<close> otherwise. It
  requests \<open>max_size + p * 16\<close> bytes from the allocator, a sum that does not wrap
  around. When the allocator returns a null buffer the result is a handle whose \<open>buf\<close>
  is null; when it returns a buffer the result is a dynamic message buffer on that
  buffer with size \<open>max_size\<close>, packet count \<open>p\<close> and the magic set. An exception of the
  allocator is passed on.
\<close>

theorem alloc_msg_buffer_spec:
  assumes "static_asserts cfg" and "max_size \<le> kMaxMsgSize cfg"
  shows "let D = kMaxDataPerPkt cfg; p = calc_num_pkts cfg max_size;
             req = max_size + p * sizeof_pkthdr_t in
         int (unat p) = (if unat max_size \<le> unat D then 1
                         else \<lceil>real (unat max_size) / real (unat D)\<rceil>) \<and>
         calc_num_pkts cfg D = 1 \<and> calc_num_pkts cfg 0 = 1 \<and>
         unat req = unat max_size + unat p * 16 \<and>
         (case HugeAlloc_alloc cfg h req of
            Inl e \<Rightarrow> alloc_msg_buffer cfg h max_size = Inl e
          | Inr (b, h') \<Rightarrow>
              (\<exists>m. alloc_msg_buffer cfg h max_size = Inr (m, h') \<and>
                 (if b_buf b = None then buf m = None
                  else buf m \<noteq> None \<and> buffer m = b \<and> is_dynamic m \<and> check_magic m \<and>
                       data_size m = max_size \<and> max_data_size m = max_size \<and>
                       num_pkts m = p \<and> max_num_pkts m = p)))"
proof -
  let ?D = "kMaxDataPerPkt cfg"
  let ?p = "calc_num_pkts cfg max_size"
  have D0: "?D \<noteq> 0" using assms(1) by (simp add: static_asserts_def)
  have Dpos: "0 < unat ?D" using D0 by (simp add: unat_gt_0)
  have m: "unat max_size \<le> 2 ^ 24" using assms by (rule msg_size_bound)
  have count: "int (unat ?p) = (if unat max_size \<le> unat ?D then 1
                         else \<lceil>real (unat max_size) / real (unat ?D)\<rceil>)"
  proof (cases "max_size \<le> ?D")
    case True
    then show ?thesis by (simp add: calc_num_pkts_def word_le_nat_alt)
  next
    case False
    then show ?thesis
      using calc_num_pkts_large [OF D0 False m] ceil_div_nat [OF Dpos, of "unat max_size"]
      by (simp add: word_le_nat_alt)
  qed
  have exact: "calc_num_pkts cfg ?D = 1" "calc_num_pkts cfg 0 = 1"
    by (simp_all add: calc_num_pkts_def)
  have req: "unat (max_size + ?p * sizeof_pkthdr_t) = unat max_size + unat ?p * 16"
    using assms by (rule alloc_request_exact)
  have res: "case HugeAlloc_alloc cfg h (max_size + ?p * sizeof_pkthdr_t) of
            Inl e \<Rightarrow> alloc_msg_buffer cfg h max_size = Inl e
          | Inr (b, h') \<Rightarrow>
              (\<exists>m. alloc_msg_buffer cfg h max_size = Inr (m, h') \<and>
                 (if b_buf b = None then buf m = None
                  else buf m \<noteq> None \<and> buffer m = b \<and> is_dynamic m \<and> check_magic m \<and>
                       data_size m = max_size \<and> max_data_size m = max_size \<and>
                       num_pkts m = ?p \<and> max_num_pkts m = ?p))"
    by (auto simp: alloc_msg_buffer_def Let_def MsgBuffer_ctor_def is_dynamic_def
        check_magic_def split: sum.splits)
  show ?thesis
    unfolding Let_def using count exact req res by blast
qed

text \<open>A buffer for 3000 bytes has three packets and takes 3048 bytes.\<close>

theorem alloc_msg_buffer_spec_witness:
  "static_asserts example_cfg \<and> 3000 \<le> kMaxMsgSize example_cfg \<and>
   calc_num_pkts example_cfg 3000 = 3 \<and>
   (\<exists>m h'. alloc_msg_buffer example_cfg example_alloc 3000 = Inr (m, h') \<and>
      buf m \<noteq> None \<and> data_size m = 3000 \<and> num_pkts m = 3 \<and> check_magic m \<and>
      class_size (buffer m) = 3048)"
proof -
  have le: "3000 \<le> kMaxMsgSize example_cfg"
    by (simp add: example_cfg_def kMaxMsgSize_def sizeof_pkthdr_t_def)
  have al: "HugeAlloc_alloc example_cfg example_alloc 3048 =
      Inr (\<lparr>b_buf = Some 4096, class_size = 3048\<rparr>,
           \<lparr>avail_bytes = 6952, next_free = 7144,
            user_allocs = [\<lparr>b_buf = Some 4096, class_size = 3048\<rparr>]\<rparr>)"
    by (simp add: HugeAlloc_alloc_def example_cfg_def example_alloc_def Let_def)
  have p: "calc_num_pkts example_cfg 3000 = 3"
    by (simp add: calc_num_pkts_def example_cfg_def)
  show ?thesis
    using alloc_msg_buffer_spec [OF example_cfg_static_asserts le, of example_alloc]
      example_cfg_static_asserts le p al
    by (auto simp: Let_def sizeof_pkthdr_t_def MsgBuffer_ctor_def)
qed

section \<open>Resizing a message buffer\<close>

text \<open>
  Claim C5. For every valid message buffer \<open>m\<close> (non-null \<open>buf\<close>, magic set) and every
  \<open>new_data_size\<close> below its maximum data size (and a non-zero \<open>kMaxDataPerPkt\<close>, by
  which the function divides), \<open>resize_msg_buffer\<close> returns, and
  resizing the result again to the same size returns the same buffer. The call changes
  the fields \<open>data_size\<close> and \<open>num_pkts\<close> only: the maximum data size, the payload
  pointer and the payload bytes \<open>[0, new_data_size)\<close> are what they were.
\<close>

theorem resize_msg_buffer_idempotent:
  assumes "buf m \<noteq> None" and "check_magic m" and "new_data_size < max_data_size m"
    and "kMaxDataPerPkt cfg \<noteq> 0"
  shows "\<exists>m'. resize_msg_buffer cfg (Some m, mem) new_data_size = Inr (m', mem) \<and>
           resize_msg_buffer cfg (Some m', mem) new_data_size = Inr (m', mem) \<and>
           m' = m\<lparr>data_size := new_data_size,
                  num_pkts := calc_num_pkts cfg new_data_size\<rparr> \<and>
           max_data_size m' = max_data_size m \<and> buf m' = buf m \<and>
           payload mem m' (unat new_data_size) = payload mem m (unat new_data_size)"
  using assms
  by (simp add: resize_msg_buffer_def MsgBuffer_resize_def check_magic_def payload_def)

text \<open>The buffer for 3000 bytes is resized to 100 bytes, twice.\<close>

theorem resize_msg_buffer_idempotent_witness:
  "buf example_msgbuf \<noteq> None \<and> check_magic example_msgbuf \<and>
   (100 :: size_t) < max_data_size example_msgbuf \<and> kMaxDataPerPkt example_cfg \<noteq> 0 \<and>
   (\<exists>m'. resize_msg_buffer example_cfg (Some example_msgbuf, \<lambda>a. 0) 100 = Inr (m', \<lambda>a. 0) \<and>
      resize_msg_buffer example_cfg (Some m', \<lambda>a. 0) 100 = Inr (m', \<lambda>a. 0) \<and>
      data_size m' = 100 \<and> num_pkts m' = 1 \<and> max_data_size m' = 3000)"
proof -
  have a: "buf example_msgbuf \<noteq> None" "check_magic example_msgbuf"
    "(100 :: size_t) < max_data_size example_msgbuf" "kMaxDataPerPkt example_cfg \<noteq> 0"
    by (simp_all add: example_msgbuf_def MsgBuffer_ctor_def check_magic_def example_cfg_def)
  have p: "calc_num_pkts example_cfg 100 = 1"
    by (simp add: calc_num_pkts_def example_cfg_def)
  show ?thesis
    using resize_msg_buffer_idempotent [OF a, of "\<lambda>a. 0"] a p
    by (auto simp: example_msgbuf_def MsgBuffer_ctor_def)
qed

section \<open>Destroying a session\<close>

text \<open>
  Claim C1. Every call of \<open>destroy_session\<close> returns, unless the caller is the creator
  and the pointer is non-null and either points to no live session or to a client
  session whose membership in the management-retry queue contradicts its state (then
  an assertion of the function fails). A call that returns, returns true if and only if
  the caller is the creator thread, the session is a non-null client session and its
  state is Connected; then the state is DisconnectInProgress, the session is appended
  to the management-retry queue and one DisconnectReq for it is sent, and nothing else
  changes. In every other case the call returns false and the Rpc, with all its
  sessions, is unchanged.
\<close>

theorem destroy_session_spec:
  "case destroy_session tid session_p rpc of
     Inr (ret, rpc') \<Rightarrow>
       (ret \<longleftrightarrow> in_creator tid rpc \<and>
          (\<exists>a s. session_p = Some a \<and> sessions rpc a = Some s \<and> is_client s \<and>
                 state s = kConnected)) \<and>
       (if ret then
          (\<exists>a s. session_p = Some a \<and> sessions rpc a = Some s \<and>
             rpc' = rpc\<lparr>sessions := (sessions rpc)(a \<mapsto> s\<lparr>state := kDisconnectInProgress\<rparr>),
                        mgmt_retry_queue := mgmt_retry_queue rpc @ [a],
                        sm_tx_list := sm_tx_list rpc @ [sm_req_of rpc kDisconnectReq s]\<rparr>)
        else rpc' = rpc)
   | Inl f \<Rightarrow>
       in_creator tid rpc \<and>
       (\<exists>a. session_p = Some a \<and>
          (case sessions rpc a of
             None \<Rightarrow> f = InvalidPointer
           | Some s \<Rightarrow> f = AssertFailed \<and> is_client s \<and> \<not> retry_queue_consistent rpc a s))"
  by (auto simp: destroy_session_def retry_queue_consistent_def mgmt_retry_queue_add_def
      mgmt_retry_queue_contains_def in_creator_def
      send_disconnect_req_one_def enqueue_sm_req_def sm_req_of_def
      SessionMgmtPkt_default_def is_client_def Let_def
      split: option.splits SessionState.splits sum.splits if_splits)

text \<open>A connected client session is destroyed by its creator.\<close>

theorem destroy_session_spec_witness:
  "\<exists>rpc'. destroy_session 100 (Some 0) example_connected_rpc = Inr (True, rpc') \<and>
     mgmt_retry_queue rpc' = [0] \<and>
     map_option state (sessions rpc' 0) = Some kDisconnectInProgress \<and>
     length (sm_tx_list rpc') = 1"
proof -
  have "destroy_session 100 (Some 0) example_connected_rpc \<noteq> Inl f" for f
    by (simp add: destroy_session_def example_connected_rpc_def example_rpc_def Rpc_init_def
        in_creator_def Session_ctor_def is_client_def mgmt_retry_queue_add_def
        mgmt_retry_queue_contains_def send_disconnect_req_one_def enqueue_sm_req_def)
  then show ?thesis
    using destroy_session_spec [where tid = 100 and session_p = "Some 0" and rpc = example_connected_rpc]
    by (auto simp: example_connected_rpc_def example_rpc_def Rpc_init_def in_creator_def
        Session_ctor_def is_client_def split: sum.splits)
qed

section \<open>Management replies\<close>

text \<open>
  Claim C8. Whenever \<open>enqueue_sm_resp\<close> returns, the work item it appends to the
  transmit list carries a packet that is the request with the packet type replaced by
  the corresponding response type and the error type replaced by the argument; both
  endpoint descriptors, and with them the secret, are those of the request, and nothing
  else in the Rpc changes. The call returns for every connect and disconnect request
  that comes with a peer.
\<close>

theorem enqueue_sm_resp_echo:
  "(\<forall>rpc'. enqueue_sm_resp req_wi err rpc = Inr rpc' \<longrightarrow>
      (\<exists>rwi req resp.
         req_wi = Some rwi \<and> sm_pkt rwi = Some req \<and> is_req req \<and>
         rpc' = rpc\<lparr>sm_tx_list := sm_tx_list rpc @
                  [\<lparr>wi_rpc_id = rpc_app_tid rpc, sm_pkt = Some resp, epeer = epeer rwi\<rparr>]\<rparr> \<and>
         resp = req\<lparr>pkt_type := pkt_type resp, err_type := err\<rparr> \<and>
         session_mgmt_pkt_type_req_to_resp (pkt_type req) = Inr (pkt_type resp) \<and>
         pkt_client resp = pkt_client req \<and> pkt_server resp = pkt_server req \<and>
         secret (pkt_client resp) = secret (pkt_client req) \<and>
         secret (pkt_server resp) = secret (pkt_server req))) \<and>
   (\<forall>rwi req. req_wi = Some rwi \<and> sm_pkt rwi = Some req \<and> epeer rwi \<noteq> None \<and>
        pkt_type req \<in> {kConnectReq, kDisconnectReq} \<longrightarrow>
      (\<exists>rpc'. enqueue_sm_resp req_wi err rpc = Inr rpc'))"
  by (auto simp: enqueue_sm_resp_def is_req_def Let_def
      split: option.splits sum.splits if_splits)

text \<open>The reply to the connect request from \<open>host-b\<close>, with error kind 5.\<close>

theorem enqueue_sm_resp_echo_witness:
  "\<exists>rpc'. enqueue_sm_resp (Some example_req_wi) 5 example_rpc = Inr rpc' \<and>
      sm_tx_list rpc' =
        [\<lparr>wi_rpc_id = 3,
          sm_pkt = Some (example_connect_req\<lparr>pkt_type := kConnectResp, err_type := 5\<rparr>),
          epeer = Some 9\<rparr>]"
  using enqueue_sm_resp_echo [of "Some example_req_wi" 5 example_rpc]
  by (auto simp: example_connect_req_def example_req_wi_def example_rpc_def Rpc_init_def)

section \<open>The event loop\<close>

text \<open>
  Claim C7. An invocation of \<open>run_event_loop_one\<close> outside the creator thread fails its
  assertion before any call. In the creator thread it counts the iteration and then
  makes its calls in this order, each on the Rpc that the call before it left behind:
  the handling of session management packets, made when the mailbox is non-empty on
  entry; the resending of management requests, made when the management-retry queue
  is non-empty at that point (after the handling of the mailbox, when that ran);
  \<open>process_completions\<close>; and \<open>process_datapath_tx_work_queue\<close>, whose outcome is the
  outcome of the iteration. A callee that does not return ends the iteration with its
  fault, after the calls made so far. So the calls of an iteration are a subsequence of
  the four callees in their fixed order, no callee is called twice, and an iteration
  that returns has called \<open>process_completions\<close> and then
  \<open>process_datapath_tx_work_queue\<close> last.
\<close>

theorem run_event_loop_one_order:
  "(\<not> in_creator tid rpc \<longrightarrow> run_event_loop_one body tid rpc = ([], Inl AssertFailed)) \<and>
   (in_creator tid rpc \<longrightarrow>
      (\<exists>calls res hsm retry.
         run_event_loop_one body tid rpc = (calls, res) \<and>
         hsm = (if sm_pkt_list rpc \<noteq> [] then [HandleSessionManagement] else []) \<and>
         (case (if sm_pkt_list rpc \<noteq> []
                then body HandleSessionManagement (dpath_stat_inc_ev_loop_calls rpc)
                else Inr (dpath_stat_inc_ev_loop_calls rpc)) of
            Inl e \<Rightarrow> calls = hsm \<and> res = Inl e
          | Inr rpc2 \<Rightarrow>
              retry = (if mgmt_retry_queue rpc2 \<noteq> [] then [MgmtRetry] else []) \<and>
              (case (if mgmt_retry_queue rpc2 \<noteq> [] then body MgmtRetry rpc2 else Inr rpc2) of
                 Inl e \<Rightarrow> calls = hsm @ retry \<and> res = Inl e
               | Inr rpc3 \<Rightarrow>
                   (case body ProcessCompletions rpc3 of
                      Inl e \<Rightarrow> calls = hsm @ retry @ [ProcessCompletions] \<and> res = Inl e
                    | Inr rpc4 \<Rightarrow>
                        calls = hsm @ retry @ [ProcessCompletions, ProcessDatapathTxWorkQueue] \<and>
                        res = body ProcessDatapathTxWorkQueue rpc4))) \<and>
         subseq calls [HandleSessionManagement, MgmtRetry, ProcessCompletions,
                       ProcessDatapathTxWorkQueue] \<and>
         distinct calls \<and>
         (\<forall>rpc'. res = Inr rpc' \<longrightarrow>
            suffix [ProcessCompletions, ProcessDatapathTxWorkQueue] calls)))"
  by (auto simp: run_event_loop_one_def call_def dpath_stat_inc_ev_loop_calls_def Let_def
      suffix_def split: sum.splits)

text \<open>
  An iteration with one packet in the mailbox. When its handling puts a session into
  the management-retry queue and every callee returns, all four callees run, on the
  Rpc with the iteration counted; when its handling throws, it is the only call.
\<close>

theorem run_event_loop_one_order_witness:
  "run_event_loop_one example_body 100 (example_rpc\<lparr>sm_pkt_list := [example_connect_req]\<rparr>) =
     ([HandleSessionManagement, MgmtRetry, ProcessCompletions, ProcessDatapathTxWorkQueue],
      Inr (example_rpc\<lparr>sm_pkt_list := [], mgmt_retry_queue := [0], ev_loop_calls := 1\<rparr>)) \<and>
   run_event_loop_one example_throwing_body 100
       (example_rpc\<lparr>sm_pkt_list := [example_connect_req]\<rparr>) =
     ([HandleSessionManagement], Inl RuntimeError)"
  using run_event_loop_one_order
      [of 100 "example_rpc\<lparr>sm_pkt_list := [example_connect_req]\<rparr>" example_body]
    run_event_loop_one_order
      [of 100 "example_rpc\<lparr>sm_pkt_list := [example_connect_req]\<rparr>" example_throwing_body]
  by (auto simp: in_creator_def example_rpc_def Rpc_init_def dpath_stat_inc_ev_loop_calls_def)

section \<open>Releasing a response\<close>





section \<open>The preallocation loop of create_session\<close>

lemma alloc_msg_buffer_cases:
  assumes "alloc_msg_buffer cfg h sz = Inr (m, h1)"
  shows "(buf m = None \<and> h1 = h \<and>
          avail_bytes h < unat (sz + calc_num_pkts cfg sz * sizeof_pkthdr_t)) \<or>
         (buf m \<noteq> None \<and> is_dynamic m \<and> check_magic m \<and>
          user_allocs h1 = user_allocs h @ [buffer m] \<and>
          class_size (buffer m) \<le> avail_bytes h \<and>
          avail_bytes h1 = avail_bytes h - class_size (buffer m) \<and>
          class_size (buffer m) = unat (sz + calc_num_pkts cfg sz * sizeof_pkthdr_t))"
  using assms
  by (auto simp: alloc_msg_buffer_def HugeAlloc_alloc_def Let_def MsgBuffer_ctor_def
      MsgBuffer_default_def null_Buffer_def is_dynamic_def check_magic_def
      split: if_splits)

lemma free_prealloc_allocs:
  "free_prealloc s js h = Inr h' \<Longrightarrow>
     mset (user_allocs h') = mset (user_allocs h) - mset (pre_resp_buffers s js) \<and>
     avail_bytes h' = avail_bytes h + sum_list (map class_size (pre_resp_buffers s js))"
proof (induction js arbitrary: h)
  case Nil
  then show ?case by (simp add: pre_resp_buffers_def)
next
  case (Cons j js)
  from Cons.prems obtain h1 where
    f: "free_msg_buffer h (pre_resp_msgbuf (sslot_arr s ! j)) = Inr h1"
    and r: "free_prealloc s js h1 = Inr h'"
    by (auto simp: Let_def split: if_splits sum.splits)
  from f have h1: "h1 = HugeAlloc_free_buf h (buffer (pre_resp_msgbuf (sslot_arr s ! j)))"
    by (auto simp: free_msg_buffer_def split: if_splits)
  show ?case
    using Cons.IH [OF r] h1
    by (simp add: pre_resp_buffers_def HugeAlloc_free_buf_def diff_diff_add)
qed

lemma fill_prealloc_done:
  "\<not> i < kSessionReqWindow cfg \<Longrightarrow> fill_prealloc cfg i s h = Inr (True, s, h)"
  by (subst fill_prealloc.simps) simp

lemma fill_prealloc_frame:
  "fill_prealloc cfg i s h = Inr (ok, s1, h1) \<Longrightarrow>
     s1 = s\<lparr>sslot_arr := sslot_arr s1\<rparr> \<and> length (sslot_arr s1) = length (sslot_arr s)"
proof (induction cfg i s h rule: fill_prealloc.induct)
  case (1 cfg i s h)
  show ?case
  proof (cases "i < kSessionReqWindow cfg")
    case False
    with "1.prems" show ?thesis by (simp add: fill_prealloc_done)
  next
    case True
    from "1.prems" True obtain m h0 where
      al: "alloc_msg_buffer cfg h (kMaxDataPerPkt cfg) = Inr (m, h0)"
      by (subst (asm) fill_prealloc.simps) (auto split: sum.splits)
    let ?s1 = "s\<lparr>sslot_arr := (sslot_arr s)[i := (sslot_arr s ! i)\<lparr>pre_resp_msgbuf := m\<rparr>]\<rparr>"
    show ?thesis
    proof (cases "buf m = None")
      case True
      with "1.prems" \<open>i < kSessionReqWindow cfg\<close> al have "s1 = ?s1"
        by (subst (asm) fill_prealloc.simps) (auto simp: Let_def split: sum.splits)
      then show ?thesis by simp
    next
      case False
      with "1.prems" \<open>i < kSessionReqWindow cfg\<close> al
      have rec: "fill_prealloc cfg (i + 1) ?s1 h0 = Inr (ok, s1, h1)"
        by (subst (asm) fill_prealloc.simps) (auto simp: Let_def split: sum.splits)
      have "s1 = ?s1\<lparr>sslot_arr := sslot_arr s1\<rparr> \<and> length (sslot_arr s1) = length (sslot_arr ?s1)"
        using "1.IH" [OF \<open>i < kSessionReqWindow cfg\<close> al refl refl False rec] .
      then show ?thesis by simp
    qed
  qed
qed

lemma fill_prealloc_step:
  assumes "fill_prealloc cfg i s h = Inr (ok, s1, h1)" and "i < kSessionReqWindow cfg"
  obtains m h0 where
    "alloc_msg_buffer cfg h (kMaxDataPerPkt cfg) = Inr (m, h0)"
    "buf m = None \<Longrightarrow> \<not> ok \<and>
       s1 = s\<lparr>sslot_arr := (sslot_arr s)[i := (sslot_arr s ! i)\<lparr>pre_resp_msgbuf := m\<rparr>]\<rparr> \<and>
       free_prealloc s1 [0..<i] h0 = Inr h1"
    "buf m \<noteq> None \<Longrightarrow>
       fill_prealloc cfg (i + 1)
         (s\<lparr>sslot_arr := (sslot_arr s)[i := (sslot_arr s ! i)\<lparr>pre_resp_msgbuf := m\<rparr>]\<rparr>) h0
         = Inr (ok, s1, h1)"
proof -
  from assms obtain m h0 where
    al: "alloc_msg_buffer cfg h (kMaxDataPerPkt cfg) = Inr (m, h0)"
    by (subst (asm) fill_prealloc.simps) (auto split: sum.splits)
  show thesis
  proof (rule that [OF al])
    assume "buf m = None"
    with assms al show "\<not> ok \<and>
       s1 = s\<lparr>sslot_arr := (sslot_arr s)[i := (sslot_arr s ! i)\<lparr>pre_resp_msgbuf := m\<rparr>]\<rparr> \<and>
       free_prealloc s1 [0..<i] h0 = Inr h1"
      by (subst (asm) fill_prealloc.simps) (auto simp: Let_def split: sum.splits)
  next
    assume "buf m \<noteq> None"
    with assms al show "fill_prealloc cfg (i + 1)
         (s\<lparr>sslot_arr := (sslot_arr s)[i := (sslot_arr s ! i)\<lparr>pre_resp_msgbuf := m\<rparr>]\<rparr>) h0
         = Inr (ok, s1, h1)"
      by (subst (asm) fill_prealloc.simps) (auto simp: Let_def split: sum.splits)
  qed
qed

lemma pre_resp_buffers_update:
  assumes "i < length (sslot_arr s)"
  shows "pre_resp_buffers
           (s\<lparr>sslot_arr := (sslot_arr s)[i := (sslot_arr s ! i)\<lparr>pre_resp_msgbuf := m\<rparr>]\<rparr>) [0..<i]
         = pre_resp_buffers s [0..<i]"
    and "pre_resp_buffers
           (s\<lparr>sslot_arr := (sslot_arr s)[i := (sslot_arr s ! i)\<lparr>pre_resp_msgbuf := m\<rparr>]\<rparr>)
           [0..<i + 1]
         = pre_resp_buffers s [0..<i] @ [buffer m]"
  using assms by (simp_all add: pre_resp_buffers_def)

lemma fill_prealloc_fail_allocs:
  "fill_prealloc cfg i s h = Inr (False, s1, h1) \<Longrightarrow>
   length (sslot_arr s) = kSessionReqWindow cfg \<Longrightarrow>
     mset (user_allocs h1) = mset (user_allocs h) - mset (pre_resp_buffers s [0..<i]) \<and>
     avail_bytes h1 = avail_bytes h + sum_list (map class_size (pre_resp_buffers s [0..<i]))"
proof (induction cfg i s h rule: fill_prealloc.induct)
  case (1 cfg i s h)
  have lt: "i < kSessionReqWindow cfg"
    using "1.prems"(1) by (subst (asm) fill_prealloc.simps) (auto split: if_splits)
  then have ilen: "i < length (sslot_arr s)" using "1.prems"(2) by simp
  from "1.prems"(1) lt show ?case
  proof (rule fill_prealloc_step)
    fix m h0
    let ?s1 = "s\<lparr>sslot_arr := (sslot_arr s)[i := (sslot_arr s ! i)\<lparr>pre_resp_msgbuf := m\<rparr>]\<rparr>"
    assume al: "alloc_msg_buffer cfg h (kMaxDataPerPkt cfg) = Inr (m, h0)"
      and fail: "buf m = None \<Longrightarrow> \<not> False \<and> s1 = ?s1 \<and> free_prealloc s1 [0..<i] h0 = Inr h1"
      and succ: "buf m \<noteq> None \<Longrightarrow> fill_prealloc cfg (i + 1) ?s1 h0 = Inr (False, s1, h1)"
    show ?case
    proof (cases "buf m = None")
      case True
      with alloc_msg_buffer_cases [OF al] have h0: "h0 = h" by auto
      from fail [OF True] have s1: "s1 = ?s1" and fr: "free_prealloc ?s1 [0..<i] h = Inr h1"
        using h0 by auto
      show ?thesis
        using free_prealloc_allocs [OF fr] pre_resp_buffers_update(1) [OF ilen, of m] by simp
    next
      case False
      with alloc_msg_buffer_cases [OF al]
      have a: "user_allocs h0 = user_allocs h @ [buffer m]"
        "class_size (buffer m) \<le> avail_bytes h"
        "avail_bytes h0 = avail_bytes h - class_size (buffer m)"
        by auto
      have "mset (user_allocs h1) = mset (user_allocs h0) - mset (pre_resp_buffers ?s1 [0..<i + 1]) \<and>
            avail_bytes h1 = avail_bytes h0 + sum_list (map class_size (pre_resp_buffers ?s1 [0..<i + 1]))"
        using "1.IH" [OF lt al refl refl False succ [OF False]] "1.prems"(2) by simp
      then show ?thesis
        using a pre_resp_buffers_update(2) [OF ilen, of m] by simp
    qed
  qed
qed

lemma fill_prealloc_ok_iff:
  "fill_prealloc cfg i s h = Inr (ok, s1, h1) \<Longrightarrow>
     (ok \<longleftrightarrow> (kSessionReqWindow cfg - i) * prealloc_size cfg \<le> avail_bytes h)"
proof (induction cfg i s h rule: fill_prealloc.induct)
  case (1 cfg i s h)
  show ?case
  proof (cases "i < kSessionReqWindow cfg")
    case False
    with "1.prems" show ?thesis by (simp add: fill_prealloc_done)
  next
    case lt: True
    from "1.prems" lt show ?thesis
    proof (rule fill_prealloc_step)
      fix m h0
      let ?s1 = "s\<lparr>sslot_arr := (sslot_arr s)[i := (sslot_arr s ! i)\<lparr>pre_resp_msgbuf := m\<rparr>]\<rparr>"
      assume al: "alloc_msg_buffer cfg h (kMaxDataPerPkt cfg) = Inr (m, h0)"
        and fail: "buf m = None \<Longrightarrow> \<not> ok \<and> s1 = ?s1 \<and> free_prealloc s1 [0..<i] h0 = Inr h1"
        and succ: "buf m \<noteq> None \<Longrightarrow> fill_prealloc cfg (i + 1) ?s1 h0 = Inr (ok, s1, h1)"
      show ?thesis
      proof (cases "buf m = None")
        case True
        with alloc_msg_buffer_cases [OF al] have low: "avail_bytes h < prealloc_size cfg"
          by (auto simp: prealloc_size_def)
        have "prealloc_size cfg \<le> (kSessionReqWindow cfg - i) * prealloc_size cfg"
          using lt by (cases "kSessionReqWindow cfg - i") auto
        with low have "avail_bytes h < (kSessionReqWindow cfg - i) * prealloc_size cfg"
          by (rule less_le_trans)
        then have "\<not> (kSessionReqWindow cfg - i) * prealloc_size cfg \<le> avail_bytes h"
          by (simp only: not_le)
        moreover have "\<not> ok" using fail [OF True] by simp
        ultimately show ?thesis by blast
      next
        case False
        with alloc_msg_buffer_cases [OF al]
        have a: "prealloc_size cfg \<le> avail_bytes h"
          "avail_bytes h0 = avail_bytes h - prealloc_size cfg"
          by (auto simp: prealloc_size_def)
        have "ok \<longleftrightarrow> (kSessionReqWindow cfg - (i + 1)) * prealloc_size cfg \<le> avail_bytes h0"
          using "1.IH" [OF lt al refl refl False succ [OF False]] .
        moreover have "(kSessionReqWindow cfg - i) * prealloc_size cfg =
            (kSessionReqWindow cfg - (i + 1)) * prealloc_size cfg + prealloc_size cfg"
        proof -
          have "kSessionReqWindow cfg - i = Suc (kSessionReqWindow cfg - (i + 1))"
            using lt by simp
          then show ?thesis by (simp only: mult_Suc add.commute)
        qed
        ultimately show ?thesis using a by (auto simp: le_diff_conv2)
      qed
    qed
  qed
qed

lemma alloc_msg_buffer_Inl:
  "alloc_msg_buffer cfg h sz = Inl f \<Longrightarrow>
     f = RuntimeError \<and> kMaxClassSize cfg < sz + calc_num_pkts cfg sz * sizeof_pkthdr_t"
  by (auto simp: alloc_msg_buffer_def HugeAlloc_alloc_def Let_def split: if_splits)

lemma free_prealloc_returns:
  "\<forall>j \<in> set js. buf (pre_resp_msgbuf (sslot_arr s ! j)) \<noteq> None \<and>
       is_dynamic (pre_resp_msgbuf (sslot_arr s ! j)) \<and>
       check_magic (pre_resp_msgbuf (sslot_arr s ! j)) \<Longrightarrow>
   \<exists>h'. free_prealloc s js h = Inr h'"
  by (induction js arbitrary: h) (simp_all add: free_msg_buffer_def Let_def)

lemma fill_prealloc_Inl:
  "fill_prealloc cfg i s h = Inl f \<Longrightarrow> length (sslot_arr s) = kSessionReqWindow cfg \<Longrightarrow>
   (\<forall>j < i. buf (pre_resp_msgbuf (sslot_arr s ! j)) \<noteq> None \<and>
       is_dynamic (pre_resp_msgbuf (sslot_arr s ! j)) \<and>
       check_magic (pre_resp_msgbuf (sslot_arr s ! j))) \<Longrightarrow>
   f = RuntimeError \<and>
   kMaxClassSize cfg <
     kMaxDataPerPkt cfg + calc_num_pkts cfg (kMaxDataPerPkt cfg) * sizeof_pkthdr_t"
proof (induction cfg i s h rule: fill_prealloc.induct)
  case (1 cfg i s h)
  have lt: "i < kSessionReqWindow cfg"
    using "1.prems"(1) by (subst (asm) fill_prealloc.simps) (auto split: if_splits)
  show ?case
  proof (cases "alloc_msg_buffer cfg h (kMaxDataPerPkt cfg)")
    case (Inl e)
    with "1.prems"(1) lt have "e = f"
      by (subst (asm) fill_prealloc.simps) simp
    with alloc_msg_buffer_Inl [OF Inl] show ?thesis by simp
  next
    case (Inr x)
    obtain m h0 where x: "x = (m, h0)" by (cases x)
    with Inr have al: "alloc_msg_buffer cfg h (kMaxDataPerPkt cfg) = Inr (m, h0)" by simp
    let ?s1 = "s\<lparr>sslot_arr := (sslot_arr s)[i := (sslot_arr s ! i)\<lparr>pre_resp_msgbuf := m\<rparr>]\<rparr>"
    show ?thesis
    proof (cases "buf m = None")
      case True
      have "\<forall>j \<in> set [0..<i]. buf (pre_resp_msgbuf (sslot_arr ?s1 ! j)) \<noteq> None \<and>
         is_dynamic (pre_resp_msgbuf (sslot_arr ?s1 ! j)) \<and>
         check_magic (pre_resp_msgbuf (sslot_arr ?s1 ! j))"
        using "1.prems"(3) by simp
      from free_prealloc_returns [OF this, of h0] obtain h' where
        "free_prealloc ?s1 [0..<i] h0 = Inr h'" by blast
      with "1.prems"(1) lt al True have False
        by (subst (asm) fill_prealloc.simps) (simp add: Let_def)
      then show ?thesis ..
    next
      case False
      with "1.prems"(1) lt al
      have rec: "fill_prealloc cfg (i + 1) ?s1 h0 = Inl f"
        by (subst (asm) fill_prealloc.simps) (simp add: Let_def)
      from alloc_msg_buffer_cases [OF al] False
      have m: "buf m \<noteq> None \<and> is_dynamic m \<and> check_magic m" by auto
      have len: "length (sslot_arr ?s1) = kSessionReqWindow cfg" using "1.prems"(2) by simp
      have inv: "\<forall>j < i + 1. buf (pre_resp_msgbuf (sslot_arr ?s1 ! j)) \<noteq> None \<and>
         is_dynamic (pre_resp_msgbuf (sslot_arr ?s1 ! j)) \<and>
         check_magic (pre_resp_msgbuf (sslot_arr ?s1 ! j))"
        using "1.prems"(2,3) lt m by (auto simp: nth_list_update less_Suc_eq)
      from "1.IH" [OF lt al refl refl False rec len inv] show ?thesis .
    qed
  qed
qed



lemma Session_ctor_slots: "length (sslot_arr (Session_ctor cfg a r st)) = kSessionReqWindow cfg"
  by (simp add: Session_ctor_def)

section \<open>Outcomes of create_session\<close>

lemma session_exists_True:
  "session_exists hp host t vec = Inr True \<Longrightarrow>
     \<exists>a s. Some a \<in> set vec \<and> hp a = Some s \<and> hostname (server s) = host \<and>
           app_tid (server s) = t"
  by (induction hp host t vec rule: session_exists.induct)
     (auto split: option.splits if_splits)

lemma session_exists_False:
  "session_exists hp host t vec = Inr False \<Longrightarrow>
     \<not> (\<exists>a s. Some a \<in> set vec \<and> hp a = Some s \<and> hostname (server s) = host \<and>
           app_tid (server s) = t)"
  by (induction hp host t vec rule: session_exists.induct)
     (auto split: option.splits if_splits)

lemma session_exists_Inl:
  "session_exists hp host t vec = Inl f \<Longrightarrow>
     \<exists>a. Some a \<in> set vec \<and>
       (case hp a of
          None \<Rightarrow> f = InvalidPointer
        | Some s \<Rightarrow> f = AssertFailed \<and> hostname (server s) = host \<and> app_tid (server s) = t \<and>
                    \<not> is_client s)"
  by (induction hp host t vec rule: session_exists.induct)
     (auto split: option.splits if_splits)

lemma session_exists_sound:
  "\<forall>a. Some a \<in> set vec \<longrightarrow>
        (\<exists>s. hp a = Some s \<and>
             (hostname (server s) = host \<and> app_tid (server s) = t \<longrightarrow> is_client s)) \<Longrightarrow>
   session_exists hp host t vec =
     Inr (\<exists>a s. Some a \<in> set vec \<and> hp a = Some s \<and> hostname (server s) = host \<and>
                app_tid (server s) = t)"
  by (induction hp host t vec rule: session_exists.induct)
     (auto split: option.splits if_splits)

lemma create_session_rejected:
  assumes "\<not> create_session_checks cfg tid hp t p rpc"
    and "create_session cfg tid hp t p rpc = Inr (r, rpc')"
  shows "r = None \<and> rpc' = rpc"
proof (cases hp)
  case None
  with assms(2) show ?thesis by (simp add: create_session_def split: if_splits)
next
  case (Some host)
  show ?thesis
  proof (cases "session_exists (sessions rpc) host t (session_vec rpc)")
    case (Inl e)
    with assms(2) Some show ?thesis by (simp add: create_session_def split: if_splits)
  next
    case (Inr b)
    show ?thesis
    proof (cases b)
      case True
      with assms(2) Some Inr show ?thesis by (simp add: create_session_def split: if_splits)
    next
      case False
      with Inr session_exists_False [of "sessions rpc" host t "session_vec rpc"]
      have "\<not> (\<exists>a s. Some a \<in> set (session_vec rpc) \<and> sessions rpc a = Some s \<and>
               hostname (server s) = host \<and> app_tid (server s) = t)" by simp
      with assms(1) Some have "\<not> in_creator tid rpc \<or> \<not> unat p < kMaxPhyPorts cfg \<or>
              \<not> length host \<le> kMaxHostnameLen cfg \<or>
              (host = nexus_hostname rpc \<and> t = rpc_app_tid rpc) \<or>
              \<not> length (session_vec rpc) < kMaxSessionsPerThread cfg"
        by (auto simp: create_session_checks_def)
      with assms(2) Some Inr False show ?thesis
        by (auto simp: create_session_def split: if_splits)
    qed
  qed
qed

lemma create_session_accepted:
  assumes "create_session_checks cfg tid hp t p rpc"
    and "create_session cfg tid hp t p rpc = Inr (r, rpc')"
  obtains (oom) s1 h1 where
      "fill_prealloc cfg 0 (Session_ctor cfg (shd (session_addrs rpc)) kClient kConnectInProgress)
         (huge_alloc rpc) = Inr (False, s1, h1)"
      "r = None"
      "rpc' = rpc\<lparr>sessions := (sessions rpc)(shd (session_addrs rpc) \<mapsto> s1),
                 session_addrs := stl (session_addrs rpc), huge_alloc := h1\<rparr>"
    | (created) host s1 h1 where
      "fill_prealloc cfg 0 (Session_ctor cfg (shd (session_addrs rpc)) kClient kConnectInProgress)
         (huge_alloc rpc) = Inr (True, s1, h1)"
      "hp = Some host"
      "r = Some (shd (session_addrs rpc))"
      "shd (session_addrs rpc) \<notin> set (mgmt_retry_queue rpc)"
      "rpc' = rpc\<lparr>sessions := (sessions rpc)
                   (shd (session_addrs rpc) \<mapsto> new_client_session rpc host t p s1),
                 session_addrs := stl (session_addrs rpc),
                 huge_alloc := h1, slow_rand := stl (slow_rand rpc),
                 session_vec := session_vec rpc @ [Some (shd (session_addrs rpc))],
                 mgmt_retry_queue := mgmt_retry_queue rpc @ [shd (session_addrs rpc)],
                 sm_tx_list := sm_tx_list rpc @
                   [sm_req_of rpc kConnectReq (new_client_session rpc host t p s1)]\<rparr>"
proof -
  from assms(1) obtain host where hp: "hp = Some host"
    and chk: "in_creator tid rpc" "unat p < kMaxPhyPorts cfg"
      "length host \<le> kMaxHostnameLen cfg"
      "\<not> (host = nexus_hostname rpc \<and> t = rpc_app_tid rpc)"
      "length (session_vec rpc) < kMaxSessionsPerThread cfg"
    and nodup: "\<not> (\<exists>a s. Some a \<in> set (session_vec rpc) \<and> sessions rpc a = Some s \<and>
                 hostname (server s) = host \<and> app_tid (server s) = t)"
    by (auto simp: create_session_checks_def)
  let ?a = "shd (session_addrs rpc)"
  let ?s0 = "Session_ctor cfg ?a kClient kConnectInProgress"
  have ex: "session_exists (sessions rpc) host t (session_vec rpc) = Inr False"
  proof (cases "session_exists (sessions rpc) host t (session_vec rpc)")
    case (Inl e)
    with assms(2) hp chk show ?thesis by (auto simp: create_session_def split: if_splits)
  next
    case (Inr b)
    with nodup session_exists_True [of "sessions rpc" host t "session_vec rpc"]
    show ?thesis by (cases b) auto
  qed
  have nself: "(host = nexus_hostname rpc \<and> t = rpc_app_tid rpc) = False"
    using chk(4) by simp
  have pre: "\<not> kMaxPhyPorts cfg \<le> unat p" "\<not> kMaxHostnameLen cfg < length host"
    "\<not> kMaxSessionsPerThread cfg \<le> length (session_vec rpc)"
    using chk by simp_all
  note defs = create_session_def new_Session_def Let_def hp chk(1) pre nself ex
  obtain ok s1 h1 where
    fp: "fill_prealloc cfg 0 ?s0 (huge_alloc rpc) = Inr (ok, s1, h1)"
  proof (cases "fill_prealloc cfg 0 ?s0 (huge_alloc rpc)")
    case (Inl e)
    then have "create_session cfg tid hp t p rpc = Inl e"
      by (simp add: defs)
    with assms(2) show ?thesis by simp
  next
    case (Inr x)
    then show ?thesis using that by (cases x) auto
  qed
  have fr: "s1 = ?s0\<lparr>sslot_arr := sslot_arr s1\<rparr>"
    using fill_prealloc_frame [OF fp] by simp
  have cl: "client s1 = SessionEndpoint_default" "server s1 = SessionEndpoint_default"
    "role s1 = kClient"
    by (subst fr, simp add: Session_ctor_def)+
  show thesis
  proof (cases ok)
    case False
    then have "create_session cfg tid hp t p rpc =
        Inr (None, rpc\<lparr>sessions := (sessions rpc)(?a \<mapsto> s1), session_addrs := stl (session_addrs rpc),
                          huge_alloc := h1\<rparr>)"
      using fp by (simp add: defs)
    with assms(2) have "r = None"
      "rpc' = rpc\<lparr>sessions := (sessions rpc)(?a \<mapsto> s1), session_addrs := stl (session_addrs rpc),
                   huge_alloc := h1\<rparr>"
      by simp_all
    with fp False show thesis by (intro oom) simp_all
  next
    case ok: True
    let ?s2 = "new_client_session rpc host t p s1"
    have "create_session cfg tid hp t p rpc =
        (if ?a \<in> set (mgmt_retry_queue rpc) then Inl AssertFailed
         else Inr (Some ?a,
                rpc\<lparr>sessions := (sessions rpc)(?a \<mapsto> ?s2),
                    session_addrs := stl (session_addrs rpc),
                    huge_alloc := h1, slow_rand := stl (slow_rand rpc),
                    session_vec := session_vec rpc @ [Some ?a],
                    mgmt_retry_queue := mgmt_retry_queue rpc @ [?a],
                    sm_tx_list := sm_tx_list rpc @ [sm_req_of rpc kConnectReq ?s2]\<rparr>))"
      using fp ok cl
      by (simp add: defs mgmt_retry_queue_add_def
          mgmt_retry_queue_contains_def send_connect_req_one_def enqueue_sm_req_def
          sm_req_of_def SessionMgmtPkt_default_def SessionEndpoint_default_def is_client_def
          new_client_session_def new_client_endpoint_def new_server_endpoint_def)
    with assms(2) have
      "r = Some ?a" "?a \<notin> set (mgmt_retry_queue rpc)"
      "rpc' = rpc\<lparr>sessions := (sessions rpc)(?a \<mapsto> ?s2),
                              session_addrs := stl (session_addrs rpc),
                              huge_alloc := h1, slow_rand := stl (slow_rand rpc),
                              session_vec := session_vec rpc @ [Some ?a],
                              mgmt_retry_queue := mgmt_retry_queue rpc @ [?a],
                              sm_tx_list := sm_tx_list rpc @ [sm_req_of rpc kConnectReq ?s2]\<rparr>"
      by (auto split: if_splits)
    with fp ok hp show thesis by (intro created) simp_all
  qed
qed

lemma create_session_aborts:
  assumes "create_session cfg tid hp t p rpc = Inl f"
  shows "in_creator tid rpc \<and> unat p < kMaxPhyPorts cfg \<and>
     (\<exists>host. hp = Some host \<and> length host \<le> kMaxHostnameLen cfg \<and>
        \<not> (host = nexus_hostname rpc \<and> t = rpc_app_tid rpc) \<and>
        ((\<exists>a. Some a \<in> set (session_vec rpc) \<and>
              (case sessions rpc a of
                 None \<Rightarrow> f = InvalidPointer
               | Some s \<Rightarrow> f = AssertFailed \<and> hostname (server s) = host \<and>
                           app_tid (server s) = t \<and> \<not> is_client s)) \<or>
         (create_session_checks cfg tid hp t p rpc \<and>
            (f = RuntimeError \<and>
               kMaxClassSize cfg <
                 kMaxDataPerPkt cfg + calc_num_pkts cfg (kMaxDataPerPkt cfg) * sizeof_pkthdr_t \<or>
             f = AssertFailed \<and>
               kSessionReqWindow cfg * prealloc_size cfg \<le> avail_bytes (huge_alloc rpc) \<and>
               shd (session_addrs rpc) \<in> set (mgmt_retry_queue rpc)))))"
proof (cases hp)
  case None
  with assms show ?thesis by (simp add: create_session_def split: if_splits)
next
  case (Some host)
  note hp = Some
  from assms hp have chk: "in_creator tid rpc" "unat p < kMaxPhyPorts cfg"
      "length host \<le> kMaxHostnameLen cfg"
      "\<not> (host = nexus_hostname rpc \<and> t = rpc_app_tid rpc)"
    by (auto simp: create_session_def split: if_splits)
  have nself: "(host = nexus_hostname rpc \<and> t = rpc_app_tid rpc) = False"
    using chk(4) by simp
  have pre: "\<not> kMaxPhyPorts cfg \<le> unat p" "\<not> kMaxHostnameLen cfg < length host"
    using chk by simp_all
  let ?a = "shd (session_addrs rpc)"
  let ?s0 = "Session_ctor cfg ?a kClient kConnectInProgress"
  show ?thesis
  proof (cases "session_exists (sessions rpc) host t (session_vec rpc)")
    case (Inl e)
    with assms hp chk(1) pre nself have "e = f"
      by (simp add: create_session_def)
    with session_exists_Inl [OF Inl] chk hp show ?thesis by blast
  next
    case (Inr b)
    have b: "b = False"
    proof (rule ccontr)
      assume "b \<noteq> False"
      with Inr assms hp chk(1) pre nself show False by (simp add: create_session_def)
    qed
    with Inr have ex: "session_exists (sessions rpc) host t (session_vec rpc) = Inr False"
      by simp
    have lim: "\<not> kMaxSessionsPerThread cfg \<le> length (session_vec rpc)"
    proof
      assume "kMaxSessionsPerThread cfg \<le> length (session_vec rpc)"
      with ex assms hp chk(1) pre nself show False by (simp add: create_session_def)
    qed
    have checks: "create_session_checks cfg tid hp t p rpc"
      using chk hp lim session_exists_False [OF ex]
      by (simp add: create_session_checks_def)
    note defs = create_session_def new_Session_def Let_def hp chk(1) pre lim nself ex
    show ?thesis
    proof (cases "fill_prealloc cfg 0 ?s0 (huge_alloc rpc)")
      case (Inl e)
      then have "create_session cfg tid hp t p rpc = Inl e" by (simp add: defs)
      with assms have "e = f" by simp
      with Inl have "fill_prealloc cfg 0 ?s0 (huge_alloc rpc) = Inl f" by simp
      from fill_prealloc_Inl [OF this Session_ctor_slots]
      have "f = RuntimeError \<and>
        kMaxClassSize cfg <
          kMaxDataPerPkt cfg + calc_num_pkts cfg (kMaxDataPerPkt cfg) * sizeof_pkthdr_t"
        by simp
      with chk hp checks show ?thesis by blast
    next
      case (Inr x)
      obtain ok s1 h1 where x: "x = (ok, s1, h1)" by (cases x)
      with Inr have fp: "fill_prealloc cfg 0 ?s0 (huge_alloc rpc) = Inr (ok, s1, h1)" by simp
      have ok: ok
      proof (rule ccontr)
        assume "\<not> ok"
        with fp have "create_session cfg tid hp t p rpc =
          Inr (None, rpc\<lparr>sessions := (sessions rpc)(?a \<mapsto> s1),
                          session_addrs := stl (session_addrs rpc), huge_alloc := h1\<rparr>)"
          by (simp add: defs)
        with assms show False by simp
      qed
      have fr: "s1 = ?s0\<lparr>sslot_arr := sslot_arr s1\<rparr>"
        using fill_prealloc_frame [OF fp] by simp
      have cl: "role s1 = kClient"
        by (subst fr, simp add: Session_ctor_def)
      have "create_session cfg tid hp t p rpc = Inl AssertFailed \<and>
            ?a \<in> set (mgmt_retry_queue rpc)"
      proof (cases "?a \<in> set (mgmt_retry_queue rpc)")
        case True
        with fp ok show ?thesis
          by (simp add: defs mgmt_retry_queue_add_def mgmt_retry_queue_contains_def)
      next
        case False
        with fp ok cl have "\<exists>rpc'. create_session cfg tid hp t p rpc = Inr (Some ?a, rpc')"
          by (simp add: defs mgmt_retry_queue_add_def mgmt_retry_queue_contains_def
              send_connect_req_one_def enqueue_sm_req_def is_client_def)
        with assms show ?thesis by auto
      qed
      with assms have "f = AssertFailed" "?a \<in> set (mgmt_retry_queue rpc)" by simp_all
      moreover have "kSessionReqWindow cfg * prealloc_size cfg \<le> avail_bytes (huge_alloc rpc)"
        using fill_prealloc_ok_iff [OF fp] ok by simp
      ultimately show ?thesis using chk hp checks by blast
    qed
  qed
qed


lemma create_session_returns_null:
  assumes "create_session cfg tid hp t p rpc = Inr (r, rpc')"
  shows "(r = None \<longleftrightarrow> \<not> create_session_checks cfg tid hp t p rpc \<or>
              avail_bytes (huge_alloc rpc) < kSessionReqWindow cfg * prealloc_size cfg) \<and>
         (r = None \<longrightarrow>
            session_vec rpc' = session_vec rpc \<and>
            mset (user_allocs (huge_alloc rpc')) = mset (user_allocs (huge_alloc rpc)) \<and>
            avail_bytes (huge_alloc rpc') = avail_bytes (huge_alloc rpc) \<and>
            (\<not> create_session_checks cfg tid hp t p rpc \<longrightarrow> rpc' = rpc))"
proof (cases "create_session_checks cfg tid hp t p rpc")
  case False
  with create_session_rejected [OF False assms] show ?thesis by simp
next
  case True
  let ?s0 = "Session_ctor cfg (shd (session_addrs rpc)) kClient kConnectInProgress"
  from True assms show ?thesis
  proof (rule create_session_accepted)
    fix s1 h1
    assume fp: "fill_prealloc cfg 0 ?s0 (huge_alloc rpc) = Inr (False, s1, h1)"
      and r: "r = None"
      and st: "rpc' = rpc\<lparr>sessions := (sessions rpc)(shd (session_addrs rpc) \<mapsto> s1),
                 session_addrs := stl (session_addrs rpc), huge_alloc := h1\<rparr>"
    have "mset (user_allocs h1) = mset (user_allocs (huge_alloc rpc)) \<and>
          avail_bytes h1 = avail_bytes (huge_alloc rpc)"
      using fill_prealloc_fail_allocs [OF fp Session_ctor_slots]
      by (simp add: pre_resp_buffers_def)
    moreover have "avail_bytes (huge_alloc rpc) < kSessionReqWindow cfg * prealloc_size cfg"
      using fill_prealloc_ok_iff [OF fp] by simp
    ultimately show ?thesis using st r True by simp
  next
    fix host s1 h1
    assume fp: "fill_prealloc cfg 0 ?s0 (huge_alloc rpc) = Inr (True, s1, h1)"
      and r: "r = Some (shd (session_addrs rpc))"
    from fill_prealloc_ok_iff [OF fp] r True show ?thesis by simp
  qed
qed

lemma create_session_session_vec:
  assumes "create_session cfg tid hp t p rpc = Inr (r, rpc')"
  shows "(r = None \<and> session_vec rpc' = session_vec rpc) \<or>
         (r = Some (shd (session_addrs rpc)) \<and>
          session_vec rpc' = session_vec rpc @ [Some (shd (session_addrs rpc))])"
proof (cases "create_session_checks cfg tid hp t p rpc")
  case False
  from create_session_rejected [OF False assms] show ?thesis by simp
next
  case True
  from True assms show ?thesis
    by (rule create_session_accepted) simp_all
qed

lemma secret_48_bits:
  "unat ((x :: 64 word) AND (push_bit kSecretBits 1 - 1)) < 2 ^ 48"
proof -
  have "(push_bit kSecretBits 1 - 1 :: 64 word) = mask 48"
    by (simp add: kSecretBits_def mask_eq_exp_minus_1)
  moreover have "x AND mask 48 < 2 ^ 48"
    by (rule and_mask_less') simp
  ultimately have "x AND (push_bit kSecretBits 1 - 1) < 2 ^ 48" by simp
  then show ?thesis
    by (simp add: word_less_nat_alt)
qed

section \<open>Creating a session\<close>

text \<open>
  Claim C2. \<open>create_session\<close> returns \<open>nullptr\<close> and leaves the Rpc as it was when the
  caller is not the creator thread, when the remote port is out of range, when the
  hostname is null or too long, when the remote Rpc is this Rpc, when the session vector
  holds a session whose server endpoint has the remote hostname and the remote endpoint
  id, and when the session vector is at its limit. It returns \<open>nullptr\<close> when the
  allocator cannot supply the \<open>kSessionReqWindow\<close> preallocated response buffers; then
  the session vector is what it was and every buffer that the call took from the
  allocator has been given back: the buffers handed out by the allocator and its free
  bytes are what they were before the call. A call that returns, returns \<open>nullptr\<close> in
  these cases only. A call does not return only when the loop over the session vector
  meets a pointer to a deleted session or fails its assertion, when a preallocated
  buffer is too large for the allocator, which throws, or when the address of the new
  session is already in the management-retry queue.
\<close>

theorem create_session_failure:
  "(case create_session cfg tid hp t p rpc of
      Inr (r, rpc') \<Rightarrow>
        (r = None \<longleftrightarrow> \<not> create_session_checks cfg tid hp t p rpc \<or>
              avail_bytes (huge_alloc rpc) < kSessionReqWindow cfg * prealloc_size cfg) \<and>
        (r = None \<longrightarrow>
            session_vec rpc' = session_vec rpc \<and>
            mset (user_allocs (huge_alloc rpc')) = mset (user_allocs (huge_alloc rpc)) \<and>
            avail_bytes (huge_alloc rpc') = avail_bytes (huge_alloc rpc) \<and>
            (\<not> create_session_checks cfg tid hp t p rpc \<longrightarrow> rpc' = rpc))
    | Inl f \<Rightarrow>
        in_creator tid rpc \<and> unat p < kMaxPhyPorts cfg \<and>
        (\<exists>host. hp = Some host \<and> length host \<le> kMaxHostnameLen cfg \<and>
           \<not> (host = nexus_hostname rpc \<and> t = rpc_app_tid rpc) \<and>
           ((\<exists>a. Some a \<in> set (session_vec rpc) \<and>
                 (case sessions rpc a of
                    None \<Rightarrow> f = InvalidPointer
                  | Some s \<Rightarrow> f = AssertFailed \<and> hostname (server s) = host \<and>
                              app_tid (server s) = t \<and> \<not> is_client s)) \<or>
            (create_session_checks cfg tid hp t p rpc \<and>
               (f = RuntimeError \<and>
                  kMaxClassSize cfg <
                    kMaxDataPerPkt cfg +
                    calc_num_pkts cfg (kMaxDataPerPkt cfg) * sizeof_pkthdr_t \<or>
                f = AssertFailed \<and>
                  kSessionReqWindow cfg * prealloc_size cfg \<le> avail_bytes (huge_alloc rpc) \<and>
                  shd (session_addrs rpc) \<in> set (mgmt_retry_queue rpc)))))) \<and>
   (\<not> in_creator tid rpc \<longrightarrow> create_session cfg tid hp t p rpc = Inr (None, rpc)) \<and>
   (kMaxPhyPorts cfg \<le> unat p \<longrightarrow> create_session cfg tid hp t p rpc = Inr (None, rpc)) \<and>
   (hp = None \<longrightarrow> create_session cfg tid hp t p rpc = Inr (None, rpc)) \<and>
   (\<forall>host. hp = Some host \<and> kMaxHostnameLen cfg < length host \<longrightarrow>
      create_session cfg tid hp t p rpc = Inr (None, rpc)) \<and>
   (\<forall>host. hp = Some host \<and> host = nexus_hostname rpc \<and> t = rpc_app_tid rpc \<longrightarrow>
      create_session cfg tid hp t p rpc = Inr (None, rpc)) \<and>
   (\<forall>host. hp = Some host \<and> session_vec_sound rpc host t \<and>
        (\<exists>a s. Some a \<in> set (session_vec rpc) \<and> sessions rpc a = Some s \<and>
               hostname (server s) = host \<and> app_tid (server s) = t) \<longrightarrow>
      create_session cfg tid hp t p rpc = Inr (None, rpc)) \<and>
   (\<forall>host. hp = Some host \<and> session_vec_sound rpc host t \<and>
        kMaxSessionsPerThread cfg \<le> length (session_vec rpc) \<longrightarrow>
      create_session cfg tid hp t p rpc = Inr (None, rpc)) \<and>
   (\<forall>host. hp = Some host \<and> session_vec_sound rpc host t \<and>
        create_session_checks cfg tid hp t p rpc \<and>
        \<not> kMaxClassSize cfg <
            kMaxDataPerPkt cfg + calc_num_pkts cfg (kMaxDataPerPkt cfg) * sizeof_pkthdr_t \<and>
        avail_bytes (huge_alloc rpc) < kSessionReqWindow cfg * prealloc_size cfg \<longrightarrow>
      (\<exists>rpc'. create_session cfg tid hp t p rpc = Inr (None, rpc')))"
proof (intro conjI allI impI)
  show "case create_session cfg tid hp t p rpc of
      Inr (r, rpc') \<Rightarrow>
        (r = None \<longleftrightarrow> \<not> create_session_checks cfg tid hp t p rpc \<or>
              avail_bytes (huge_alloc rpc) < kSessionReqWindow cfg * prealloc_size cfg) \<and>
        (r = None \<longrightarrow>
            session_vec rpc' = session_vec rpc \<and>
            mset (user_allocs (huge_alloc rpc')) = mset (user_allocs (huge_alloc rpc)) \<and>
            avail_bytes (huge_alloc rpc') = avail_bytes (huge_alloc rpc) \<and>
            (\<not> create_session_checks cfg tid hp t p rpc \<longrightarrow> rpc' = rpc))
    | Inl f \<Rightarrow>
        in_creator tid rpc \<and> unat p < kMaxPhyPorts cfg \<and>
        (\<exists>host. hp = Some host \<and> length host \<le> kMaxHostnameLen cfg \<and>
           \<not> (host = nexus_hostname rpc \<and> t = rpc_app_tid rpc) \<and>
           ((\<exists>a. Some a \<in> set (session_vec rpc) \<and>
                 (case sessions rpc a of
                    None \<Rightarrow> f = InvalidPointer
                  | Some s \<Rightarrow> f = AssertFailed \<and> hostname (server s) = host \<and>
                              app_tid (server s) = t \<and> \<not> is_client s)) \<or>
            (create_session_checks cfg tid hp t p rpc \<and>
               (f = RuntimeError \<and>
                  kMaxClassSize cfg <
                    kMaxDataPerPkt cfg +
                    calc_num_pkts cfg (kMaxDataPerPkt cfg) * sizeof_pkthdr_t \<or>
                f = AssertFailed \<and>
                  kSessionReqWindow cfg * prealloc_size cfg \<le> avail_bytes (huge_alloc rpc) \<and>
                  shd (session_addrs rpc) \<in> set (mgmt_retry_queue rpc)))))"
  proof (cases "create_session cfg tid hp t p rpc")
    case (Inl f)
    from create_session_aborts [OF Inl] Inl show ?thesis by simp
  next
    case (Inr x)
    obtain r rpc' where "x = (r, rpc')" by (cases x)
    with Inr have ret: "create_session cfg tid hp t p rpc = Inr (r, rpc')" by simp
    from create_session_returns_null [OF ret] ret show ?thesis by simp
  qed
next
  assume "\<not> in_creator tid rpc"
  then show "create_session cfg tid hp t p rpc = Inr (None, rpc)"
    by (simp add: create_session_def)
next
  assume "kMaxPhyPorts cfg \<le> unat p"
  then show "create_session cfg tid hp t p rpc = Inr (None, rpc)"
    by (simp add: create_session_def)
next
  assume "hp = None"
  then show "create_session cfg tid hp t p rpc = Inr (None, rpc)"
    by (simp add: create_session_def)
next
  fix host
  assume "hp = Some host \<and> kMaxHostnameLen cfg < length host"
  then show "create_session cfg tid hp t p rpc = Inr (None, rpc)"
    by (simp add: create_session_def)
next
  fix host
  assume "hp = Some host \<and> host = nexus_hostname rpc \<and> t = rpc_app_tid rpc"
  then show "create_session cfg tid hp t p rpc = Inr (None, rpc)"
    by (simp add: create_session_def)
next
  fix host
  assume a: "hp = Some host \<and> session_vec_sound rpc host t \<and>
        (\<exists>a s. Some a \<in> set (session_vec rpc) \<and> sessions rpc a = Some s \<and>
               hostname (server s) = host \<and> app_tid (server s) = t)"
  then have "session_exists (sessions rpc) host t (session_vec rpc) = Inr True"
    using session_exists_sound [of "session_vec rpc" "sessions rpc" host t]
    by (simp add: session_vec_sound_def)
  with a show "create_session cfg tid hp t p rpc = Inr (None, rpc)"
    by (simp add: create_session_def)
next
  fix host
  assume a: "hp = Some host \<and> session_vec_sound rpc host t \<and>
        kMaxSessionsPerThread cfg \<le> length (session_vec rpc)"
  then have "\<exists>b. session_exists (sessions rpc) host t (session_vec rpc) = Inr b"
    using session_exists_sound [of "session_vec rpc" "sessions rpc" host t]
    by (simp add: session_vec_sound_def)
  then obtain b where "session_exists (sessions rpc) host t (session_vec rpc) = Inr b" ..
  with a show "create_session cfg tid hp t p rpc = Inr (None, rpc)"
    by (cases b) (simp_all add: create_session_def)
next
  fix host
  assume a: "hp = Some host \<and> session_vec_sound rpc host t \<and>
        create_session_checks cfg tid hp t p rpc \<and>
        \<not> kMaxClassSize cfg <
            kMaxDataPerPkt cfg + calc_num_pkts cfg (kMaxDataPerPkt cfg) * sizeof_pkthdr_t \<and>
        avail_bytes (huge_alloc rpc) < kSessionReqWindow cfg * prealloc_size cfg"
  show "\<exists>rpc'. create_session cfg tid hp t p rpc = Inr (None, rpc')"
  proof (cases "create_session cfg tid hp t p rpc")
    case (Inl f)
    from create_session_aborts [OF Inl] a have False
      by (auto simp: session_vec_sound_def split: option.splits)
    then show ?thesis ..
  next
    case (Inr x)
    obtain r rpc' where "x = (r, rpc')" by (cases x)
    with Inr have ret: "create_session cfg tid hp t p rpc = Inr (r, rpc')" by simp
    from create_session_returns_null [OF ret] a have "r = None" by simp
    with ret show ?thesis by blast
  qed
qed

text \<open>
  A call from another thread than the creator returns \<open>nullptr\<close> and changes nothing.
  With 3000 bytes left the third preallocated buffer cannot be allocated: the call
  returns \<open>nullptr\<close> and the allocator has its 3000 bytes back.
\<close>

theorem create_session_failure_witness:
  "create_session example_cfg 101 (Some ''host-b'') 7 0 example_rpc = Inr (None, example_rpc) \<and>
   (\<exists>rpc'. create_session example_cfg 100 (Some ''host-b'') 7 0 example_low_memory_rpc
             = Inr (None, rpc') \<and>
      session_vec rpc' = [] \<and> user_allocs (huge_alloc rpc') = [] \<and>
      avail_bytes (huge_alloc rpc') = 3000)"
proof -
  note spec = create_session_failure
    [where cfg = example_cfg and hp = "Some ''host-b''" and t = 7 and p = 0]
  have "\<not> in_creator 101 example_rpc"
    by (simp add: in_creator_def example_rpc_def Rpc_init_def)
  with spec [where tid = 101 and rpc = example_rpc, THEN conjunct2, THEN conjunct1]
  have 1: "create_session example_cfg 101 (Some ''host-b'') 7 0 example_rpc
             = Inr (None, example_rpc)"
    by (rule mp)
  have chk: "create_session_checks example_cfg 100 (Some ''host-b'') 7 0 example_low_memory_rpc"
    by (simp add: create_session_checks_def in_creator_def example_low_memory_rpc_def
        example_rpc_def Rpc_init_def example_cfg_def)
  have snd: "session_vec_sound example_low_memory_rpc ''host-b'' 7"
    by (simp add: session_vec_sound_def example_low_memory_rpc_def example_rpc_def Rpc_init_def)
  have sz: "\<not> kMaxClassSize example_cfg <
      kMaxDataPerPkt example_cfg +
      calc_num_pkts example_cfg (kMaxDataPerPkt example_cfg) * sizeof_pkthdr_t"
    by (simp add: example_cfg_def calc_num_pkts_def sizeof_pkthdr_t_def)
  have mem: "avail_bytes (huge_alloc example_low_memory_rpc) <
      kSessionReqWindow example_cfg * prealloc_size example_cfg"
    by (simp add: example_low_memory_rpc_def example_cfg_def prealloc_size_def
        calc_num_pkts_def sizeof_pkthdr_t_def example_rpc_def Rpc_init_def example_alloc_def)
  have oom: "\<forall>host. Some ''host-b'' = Some host \<and>
        session_vec_sound example_low_memory_rpc host 7 \<and>
        create_session_checks example_cfg 100 (Some ''host-b'') 7 0 example_low_memory_rpc \<and>
        \<not> kMaxClassSize example_cfg <
            kMaxDataPerPkt example_cfg +
            calc_num_pkts example_cfg (kMaxDataPerPkt example_cfg) * sizeof_pkthdr_t \<and>
        avail_bytes (huge_alloc example_low_memory_rpc) <
          kSessionReqWindow example_cfg * prealloc_size example_cfg \<longrightarrow>
      (\<exists>rpc'. create_session example_cfg 100 (Some ''host-b'') 7 0 example_low_memory_rpc
                 = Inr (None, rpc'))"
    using spec [where tid = 100 and rpc = example_low_memory_rpc] by (elim conjE)
  from oom [rule_format, of "''host-b''"] chk snd sz mem obtain rpc' where
    r: "create_session example_cfg 100 (Some ''host-b'') 7 0 example_low_memory_rpc
          = Inr (None, rpc')"
    by auto
  from spec [where tid = 100 and rpc = example_low_memory_rpc, THEN conjunct1] r
  have "session_vec rpc' = session_vec example_low_memory_rpc \<and>
      mset (user_allocs (huge_alloc rpc')) = mset (user_allocs (huge_alloc example_low_memory_rpc)) \<and>
      avail_bytes (huge_alloc rpc') = avail_bytes (huge_alloc example_low_memory_rpc)"
    by simp
  then have "session_vec rpc' = [] \<and> user_allocs (huge_alloc rpc') = [] \<and>
      avail_bytes (huge_alloc rpc') = 3000"
    by (simp add: example_low_memory_rpc_def example_rpc_def Rpc_init_def example_alloc_def)
  with 1 r show ?thesis by blast
qed

text \<open>
  Claim C3. Whenever \<open>create_session\<close> returns a session, this session is a client
  session in state ConnectInProgress; its local session number and the session number
  of its client endpoint are the size of the session vector before the call; its
  secret is the next random number cut to 48 bits and is the same in the client and
  the server endpoint; the client endpoint holds the local routing info; the session
  is appended to the session vector and to the management-retry queue; and exactly one
  work item, a ConnectReq for the session, is appended to the transmit list.
\<close>

theorem create_session_success:
  assumes "create_session cfg tid hp t p rpc = Inr (Some a, rpc')"
  shows "\<exists>s. sessions rpc' a = Some s \<and>
           role s = kClient \<and> state s = kConnectInProgress \<and>
           local_session_num s = length (session_vec rpc) \<and>
           session_num (client s) = length (session_vec rpc) \<and>
           secret (client s) = shd (slow_rand rpc) AND (push_bit kSecretBits 1 - 1) \<and>
           unat (secret (client s)) < 2 ^ 48 \<and>
           secret (server s) = secret (client s) \<and>
           routing_info (client s) = fill_local_routing_info (transport rpc) \<and>
           hostname (client s) = nexus_hostname rpc \<and> app_tid (client s) = rpc_app_tid rpc \<and>
           phy_port (client s) = rpc_phy_port rpc \<and>
           hp = Some (hostname (server s)) \<and> app_tid (server s) = t \<and>
           phy_port (server s) = p \<and>
           session_vec rpc' = session_vec rpc @ [Some a] \<and>
           mgmt_retry_queue rpc' = mgmt_retry_queue rpc @ [a] \<and>
           sm_tx_list rpc' = sm_tx_list rpc @ [sm_req_of rpc kConnectReq s] \<and>
           create_session_checks cfg tid hp t p rpc"
proof -
  have chk: "create_session_checks cfg tid hp t p rpc"
    using create_session_rejected [OF _ assms] by auto
  let ?s0 = "Session_ctor cfg (shd (session_addrs rpc)) kClient kConnectInProgress"
  from chk assms obtain host s1 h1 where
    fp: "fill_prealloc cfg 0 ?s0 (huge_alloc rpc) = Inr (True, s1, h1)"
    and hp: "hp = Some host"
    and a: "a = shd (session_addrs rpc)"
    and st: "rpc' = rpc\<lparr>sessions := (sessions rpc)
                          (shd (session_addrs rpc) \<mapsto> new_client_session rpc host t p s1),
                        session_addrs := stl (session_addrs rpc),
                        huge_alloc := h1, slow_rand := stl (slow_rand rpc),
                        session_vec := session_vec rpc @ [Some (shd (session_addrs rpc))],
                        mgmt_retry_queue := mgmt_retry_queue rpc @ [shd (session_addrs rpc)],
                        sm_tx_list := sm_tx_list rpc @
                          [sm_req_of rpc kConnectReq (new_client_session rpc host t p s1)]\<rparr>"
    by (rule create_session_accepted) simp_all
  have fr: "s1 = ?s0\<lparr>sslot_arr := sslot_arr s1\<rparr>"
    using fill_prealloc_frame [OF fp] by simp
  have rs: "role s1 = kClient" "state s1 = kConnectInProgress"
    by (subst fr, simp add: Session_ctor_def)+
  show ?thesis
    using rs st a hp chk secret_48_bits [of "shd (slow_rand rpc)"]
    by (intro exI [of _ "new_client_session rpc host t p s1"])
       (simp add: new_client_session_def new_client_endpoint_def new_server_endpoint_def
          SessionEndpoint_default_def)
qed

text \<open>The first session of \<open>example_rpc\<close>, to \<open>host-b\<close>.\<close>

theorem create_session_success_witness:
  "\<exists>rpc' s. create_session example_cfg 100 (Some ''host-b'') 7 0 example_rpc
               = Inr (Some 0, rpc') \<and>
      sessions rpc' 0 = Some s \<and> state s = kConnectInProgress \<and>
      local_session_num s = 0 \<and> secret (client s) = 0x123456789ABC \<and>
      secret (server s) = 0x123456789ABC \<and> session_vec rpc' = [Some 0] \<and>
      mgmt_retry_queue rpc' = [0] \<and> length (sm_tx_list rpc') = 1"
proof -
  have "\<exists>rpc'. create_session example_cfg 100 (Some ''host-b'') 7 0 example_rpc
             = Inr (Some 0, rpc')"
    by (simp add: example_eval)
  then obtain rpc' where
    r: "create_session example_cfg 100 (Some ''host-b'') 7 0 example_rpc = Inr (Some 0, rpc')" ..
  have sec: "(0xABCD123456789ABC :: 64 word) AND (push_bit kSecretBits 1 - 1) = 0x123456789ABC"
    by (simp add: kSecretBits_def)
  from create_session_success [OF r] sec r show ?thesis
    by (auto simp: example_rpc_def Rpc_init_def)
qed

section \<open>What the other calls leave unchanged\<close>

lemma free_session_resources_result:
  "free_session_resources s js h = Inr h' \<Longrightarrow>
     h' = foldl HugeAlloc_free_buf h (pre_resp_buffers s js) \<and>
     (\<forall>j \<in> set js. is_dynamic (pre_resp_msgbuf (sslot_arr s ! j)) \<and>
                    check_magic (pre_resp_msgbuf (sslot_arr s ! j)))"
proof (induction js arbitrary: h)
  case Nil
  then show ?case by (simp add: pre_resp_buffers_def)
next
  case (Cons j js)
  from Cons.prems obtain h1 where
    f: "free_msg_buffer h (pre_resp_msgbuf (sslot_arr s ! j)) = Inr h1"
    and r: "free_session_resources s js h1 = Inr h'"
    by (auto split: sum.splits)
  from f have h1: "h1 = HugeAlloc_free_buf h (buffer (pre_resp_msgbuf (sslot_arr s ! j)))"
    and ok: "is_dynamic (pre_resp_msgbuf (sslot_arr s ! j))"
      "check_magic (pre_resp_msgbuf (sslot_arr s ! j))"
    by (auto simp: free_msg_buffer_def split: if_splits)
  show ?case
    using Cons.IH [OF r] h1 ok by (simp add: pre_resp_buffers_def)
qed

lemma foldl_free_buf_allocs:
  "mset (user_allocs (foldl HugeAlloc_free_buf h bs)) = mset (user_allocs h) - mset bs"
  by (induction bs arbitrary: h) (simp_all add: HugeAlloc_free_buf_def diff_diff_add)

lemma bury_session_st_result:
  assumes "bury_session_st cfg tid sp rpc = Inr rpc'"
  obtains a s h' where
    "sp = Some a" "sessions rpc a = Some s" "in_creator tid rpc"
    "\<not> (is_client s \<and> sm_api_req_pending s)"
    "local_session_num s < length (session_vec rpc)"
    "free_session_resources s [0..<kSessionReqWindow cfg] (huge_alloc rpc) = Inr h'"
    "rpc' = rpc\<lparr>huge_alloc := h',
               session_vec := (session_vec rpc)[local_session_num s := None],
               sessions := (sessions rpc)(a := None)\<rparr>"
proof -
  from assms have c: "in_creator tid rpc"
    by (auto simp: bury_session_st_def split: if_splits)
  from assms c obtain a where sp: "sp = Some a"
    by (cases sp) (auto simp: bury_session_st_def)
  from assms c sp obtain s where s: "sessions rpc a = Some s"
    by (cases "sessions rpc a") (auto simp: bury_session_st_def)
  from assms c sp s have np: "\<not> (is_client s \<and> sm_api_req_pending s)"
    by (auto simp: bury_session_st_def split: if_splits)
  from assms c sp s np obtain h' where
    fr: "free_session_resources s [0..<kSessionReqWindow cfg] (huge_alloc rpc) = Inr h'"
    by (cases "free_session_resources s [0..<kSessionReqWindow cfg] (huge_alloc rpc)")
       (auto simp: bury_session_st_def)
  from assms c sp s np fr have n: "local_session_num s < length (session_vec rpc)"
    and st: "rpc' = rpc\<lparr>huge_alloc := h',
               session_vec := (session_vec rpc)[local_session_num s := None],
               sessions := (sessions rpc)(a := None)\<rparr>"
    by (auto simp: bury_session_st_def split: if_splits)
  from sp s c np n fr st show thesis by (rule that)
qed

lemma destroy_session_frame:
  assumes "destroy_session tid sp rpc = Inr (ret, rpc')"
  shows "session_vec rpc' = session_vec rpc \<and>
         datapath_tx_work_queue rpc' = datapath_tx_work_queue rpc \<and>
         session_addrs rpc' = session_addrs rpc \<and>
         dom (sessions rpc') = dom (sessions rpc) \<and>
         (\<forall>a s'. sessions rpc' a = Some s' \<longrightarrow>
            (\<exists>s. sessions rpc a = Some s \<and>
                 in_datapath_tx_work_queue s' = in_datapath_tx_work_queue s))"
  using assms
  by (auto simp: destroy_session_def mgmt_retry_queue_add_def send_disconnect_req_one_def
      enqueue_sm_req_def Let_def
      split: if_splits option.splits sum.splits SessionState.splits)

lemma release_respone_frame:
  assumes "release_respone rh rpc = Inr rpc'"
  shows "session_vec rpc' = session_vec rpc \<and>
         datapath_tx_work_queue rpc' = datapath_tx_work_queue rpc \<and>
         session_addrs rpc' = session_addrs rpc \<and>
         dom (sessions rpc') = dom (sessions rpc) \<and>
         (\<forall>a s'. sessions rpc' a = Some s' \<longrightarrow>
            (\<exists>s. sessions rpc a = Some s \<and>
                 in_datapath_tx_work_queue s' = in_datapath_tx_work_queue s))"
  using assms
  by (auto simp: release_respone_def Let_def
      split: if_splits option.splits sum.splits prod.splits)

lemma upsert_result:
  assumes "upsert_datapath_tx_work_queue sp rpc = Inr rpc'"
  shows "\<exists>a s. sp = Some a \<and> sessions rpc a = Some s \<and>
           (if in_datapath_tx_work_queue s then rpc' = rpc
            else rpc' = rpc\<lparr>sessions := (sessions rpc)
                               (a \<mapsto> s\<lparr>in_datapath_tx_work_queue := True\<rparr>),
                            datapath_tx_work_queue := datapath_tx_work_queue rpc @ [a]\<rparr>)"
  using assms
  by (auto simp: upsert_datapath_tx_work_queue_def split: if_splits option.splits)

lemma enqueue_sm_resp_frame:
  assumes "enqueue_sm_resp wi err rpc = Inr rpc'"
  shows "rpc' = rpc\<lparr>sm_tx_list := sm_tx_list rpc'\<rparr>"
  using assms
  by (auto simp: enqueue_sm_resp_def Let_def split: if_splits option.splits sum.splits)

section \<open>The session vector over runs\<close>

lemma nulls_kept_refl: "nulls_kept v v"
  by (simp add: nulls_kept_def)

lemma nulls_kept_trans: "nulls_kept u v \<Longrightarrow> nulls_kept v w \<Longrightarrow> nulls_kept u w"
  by (auto simp: nulls_kept_def)

lemma nulls_kept_append: "nulls_kept v (v @ xs)"
  by (simp add: nulls_kept_def nth_append)

lemma nulls_kept_update: "nulls_kept v (v[n := None])"
  by (cases "n < length v") (auto simp: nulls_kept_def nth_list_update)

lemma do_action_nulls_kept:
  assumes "do_action cfg x rpc = Inr rpc'"
  shows "nulls_kept (session_vec rpc) (session_vec rpc')"
proof (cases x)
  case (CreateSession tid hp t p)
  with assms obtain r where "create_session cfg tid hp t p rpc = Inr (r, rpc')"
    by (auto split: sum.splits prod.splits)
  from create_session_session_vec [OF this] show ?thesis
    by (auto simp: nulls_kept_refl nulls_kept_append)
next
  case (DestroySession tid sp)
  with assms obtain r where "destroy_session tid sp rpc = Inr (r, rpc')"
    by (auto split: sum.splits prod.splits)
  from destroy_session_frame [OF this] show ?thesis by (simp add: nulls_kept_refl)
next
  case (BurySession tid sp)
  with assms have "bury_session_st cfg tid sp rpc = Inr rpc'" by simp
  then obtain a s h' where
    "sp = Some a" "sessions rpc a = Some s" "in_creator tid rpc"
    "\<not> (is_client s \<and> sm_api_req_pending s)"
    "local_session_num s < length (session_vec rpc)"
    "free_session_resources s [0..<kSessionReqWindow cfg] (huge_alloc rpc) = Inr h'"
    and st: "rpc' = rpc\<lparr>huge_alloc := h',
                      session_vec := (session_vec rpc)[local_session_num s := None],
                      sessions := (sessions rpc)(a := None)\<rparr>"
    by (rule bury_session_st_result)
  have "session_vec rpc' = (session_vec rpc)[local_session_num s := None]"
    by (simp add: st)
  then show ?thesis by (simp add: nulls_kept_update)
next
  case (ReleaseResponse rh)
  with assms have "release_respone rh rpc = Inr rpc'" by simp
  from release_respone_frame [OF this] show ?thesis by (simp add: nulls_kept_refl)
next
  case (UpsertTxQueue sp)
  with assms have "upsert_datapath_tx_work_queue sp rpc = Inr rpc'" by simp
  from upsert_result [OF this] show ?thesis
    by (auto simp: nulls_kept_refl split: if_splits)
next
  case (EnqueueSmResp wi err)
  with assms have "enqueue_sm_resp wi err rpc = Inr rpc'" by simp
  from enqueue_sm_resp_frame [OF this]
  have st: "rpc' = rpc\<lparr>sm_tx_list := sm_tx_list rpc'\<rparr>" .
  have "session_vec rpc' = session_vec rpc"
    by (subst st) simp
  then show ?thesis by (simp add: nulls_kept_refl)
qed

lemma run_actions_nulls_kept:
  "run_actions cfg acts rpc = Inr rpc' \<Longrightarrow> nulls_kept (session_vec rpc) (session_vec rpc')"
proof (induction acts arbitrary: rpc)
  case Nil
  then show ?case by (simp add: nulls_kept_refl)
next
  case (Cons x xs)
  from Cons.prems obtain rpc1 where
    s: "do_action cfg x rpc = Inr rpc1" and r: "run_actions cfg xs rpc1 = Inr rpc'"
    by (auto split: sum.splits)
  from do_action_nulls_kept [OF s] Cons.IH [OF r] show ?case
    by (rule nulls_kept_trans)
qed

section \<open>Burying a session\<close>

text \<open>
  Claim C9. Whenever \<open>bury_session_st\<close> returns, it has passed the preallocated response
  buffer of each of the \<open>kSessionReqWindow\<close> slots of the session to \<open>free_msg_buffer\<close>
  (each was dynamic with its magic set), so that their backing buffers are returned to
  the allocator; the entry of the session vector at the session's local session number
  is null and every other entry is what it was. The entry stays null in every state
  that a later run of calls to the engine reaches: sessions created later are appended
  to the vector.
\<close>

theorem bury_session_st_spec:
  assumes "bury_session_st cfg tid sp rpc = Inr rpc'"
  shows "\<exists>a s. sp = Some a \<and> sessions rpc a = Some s \<and>
           (\<forall>i < kSessionReqWindow cfg.
              is_dynamic (pre_resp_msgbuf (sslot_arr s ! i)) \<and>
              check_magic (pre_resp_msgbuf (sslot_arr s ! i))) \<and>
           huge_alloc rpc' =
             foldl HugeAlloc_free_buf (huge_alloc rpc)
               (pre_resp_buffers s [0..<kSessionReqWindow cfg]) \<and>
           mset (user_allocs (huge_alloc rpc')) =
             mset (user_allocs (huge_alloc rpc)) -
             mset (pre_resp_buffers s [0..<kSessionReqWindow cfg]) \<and>
           local_session_num s < length (session_vec rpc) \<and>
           session_vec rpc' = (session_vec rpc)[local_session_num s := None] \<and>
           session_vec rpc' ! local_session_num s = None \<and>
           (\<forall>j. j \<noteq> local_session_num s \<longrightarrow> session_vec rpc' ! j = session_vec rpc ! j) \<and>
           (\<forall>acts rpc''. run_actions cfg acts rpc' = Inr rpc'' \<longrightarrow>
              local_session_num s < length (session_vec rpc'') \<and>
              session_vec rpc'' ! local_session_num s = None)"
proof -
  from assms obtain a s h' where
    sp: "sp = Some a" and s: "sessions rpc a = Some s" and "in_creator tid rpc"
    and "\<not> (is_client s \<and> sm_api_req_pending s)"
    and n: "local_session_num s < length (session_vec rpc)"
    and fr: "free_session_resources s [0..<kSessionReqWindow cfg] (huge_alloc rpc) = Inr h'"
    and st: "rpc' = rpc\<lparr>huge_alloc := h',
                      session_vec := (session_vec rpc)[local_session_num s := None],
                      sessions := (sessions rpc)(a := None)\<rparr>"
    by (rule bury_session_st_result)
  let ?n = "local_session_num s"
  let ?bs = "pre_resp_buffers s [0..<kSessionReqWindow cfg]"
  from free_session_resources_result [OF fr]
  have h': "h' = foldl HugeAlloc_free_buf (huge_alloc rpc) ?bs"
    and dyn: "\<forall>i < kSessionReqWindow cfg.
              is_dynamic (pre_resp_msgbuf (sslot_arr s ! i)) \<and>
              check_magic (pre_resp_msgbuf (sslot_arr s ! i))"
    by simp_all
  have ha: "huge_alloc rpc' = foldl HugeAlloc_free_buf (huge_alloc rpc) ?bs"
    by (simp add: st h')
  have ms: "mset (user_allocs (huge_alloc rpc')) = mset (user_allocs (huge_alloc rpc)) - mset ?bs"
    by (simp add: ha foldl_free_buf_allocs)
  have sv: "session_vec rpc' = (session_vec rpc)[?n := None]"
    by (simp add: st)
  have nul: "session_vec rpc' ! ?n = None" using n by (simp add: sv)
  have oth: "\<forall>j. j \<noteq> ?n \<longrightarrow> session_vec rpc' ! j = session_vec rpc ! j"
    by (simp add: sv)
  have later: "\<forall>acts rpc''. run_actions cfg acts rpc' = Inr rpc'' \<longrightarrow>
              ?n < length (session_vec rpc'') \<and> session_vec rpc'' ! ?n = None"
  proof (intro allI impI)
    fix acts rpc''
    assume "run_actions cfg acts rpc' = Inr rpc''"
    from run_actions_nulls_kept [OF this] nul n
    show "?n < length (session_vec rpc'') \<and> session_vec rpc'' ! ?n = None"
      by (auto simp: nulls_kept_def sv)
  qed
  from sp s dyn ha ms n sv nul oth later show ?thesis by blast
qed

text \<open>
  The session of \<open>example_session_rpc\<close> is buried; the session created after it gets the
  next index of the session vector.
\<close>

theorem bury_session_st_spec_witness:
  "\<exists>rpc' rpc''. bury_session_st example_cfg 100 (Some 0) example_session_rpc = Inr rpc' \<and>
      session_vec rpc' = [None] \<and> user_allocs (huge_alloc rpc') = [] \<and>
      run_actions example_cfg [CreateSession 100 (Some ''host-c'') 7 0] rpc' = Inr rpc'' \<and>
      session_vec rpc'' = [None, Some 1]"
proof -
  have "\<exists>rpc' rpc''. bury_session_st example_cfg 100 (Some 0) example_session_rpc = Inr rpc' \<and>
      session_vec rpc' = [None] \<and> user_allocs (huge_alloc rpc') = [] \<and>
      run_actions example_cfg [CreateSession 100 (Some ''host-c'') 7 0] rpc' = Inr rpc'' \<and>
      session_vec rpc'' = [None, Some 1]"
    by (simp add: example_session_rpc_def bury_session_st_def example_eval upt_0_8)
  then obtain rpc' rpc'' where
    b: "bury_session_st example_cfg 100 (Some 0) example_session_rpc = Inr rpc'"
    and r: "session_vec rpc' = [None] \<and> user_allocs (huge_alloc rpc') = [] \<and>
      run_actions example_cfg [CreateSession 100 (Some ''host-c'') 7 0] rpc' = Inr rpc'' \<and>
      session_vec rpc'' = [None, Some 1]"
    by blast
  from bury_session_st_spec [OF b] b r show ?thesis by blast
qed

section \<open>The TX work queue over runs\<close>














section \<open>The invariant of the TX work queue\<close>



end
